theory Spec2Isabelle
  imports
    Complex_Main
    "HOL-Library.Log_Nat"
    "HOL-Library.Multiset"
    "HOL-Library.Product_Lexorder"
    "HOL-Library.AList"
    "HOL-Library.Sublist"
begin

section \<open>JavaScript numbers\<close>

text \<open>
  The anomaly detector of the web frontend (\<^verbatim>\<open>utils/anomalyDetection.js\<close>) computes with
  JavaScript numbers, which are IEEE 754 binary64 values. A number is \<open>NaN\<close>, one of the
  two infinities, negative zero, or a finite value \<open>Fin r\<close> given by the rational \<open>r\<close> it
  denotes (\<open>Fin 0\<close> is positive zero). Equality of the datatype is the identity of
  \<^verbatim>\<open>Object.is\<close>. Every arithmetic operation computes the exact rational result and rounds
  it to the nearest binary64 value, ties to the even significand.
\<close>

datatype jsnum = NaN | NInf | PInf | NegZero | Fin rat

definition round_half_even :: "rat \<Rightarrow> int" where
  "round_half_even x =
     (let f = \<lfloor>x\<rfloor>; d = x - of_int f
      in if d < 1 / 2 then f else if 1 / 2 < d then f + 1 else if even f then f else f + 1)"

text \<open>\<open>floor_log2 a\<close> is the integer \<open>l\<close> with \<open>2 ^ l \<le> a < 2 ^ (l + 1)\<close>, for \<open>0 < a\<close>.\<close>

definition floor_log2 :: "rat \<Rightarrow> int" where
  "floor_log2 a =
     (let (p, q) = quotient_of a; d = bitlen p - bitlen q
      in if a < 2 powi d then d - 1 else d)"

text \<open>
  The exponent of the last place of the binary64 values around \<open>a\<close>: 53 significant bits,
  and never below the subnormal spacing \<open>2 ^ - 1074\<close>.
\<close>

definition quantum :: "rat \<Rightarrow> int" where
  "quantum a = max (floor_log2 a - 52) (- 1074)"

definition round64 :: "rat \<Rightarrow> jsnum" where
  "round64 x =
     (if x = 0 then Fin 0
      else let a = \<bar>x\<bar>; e = quantum a; r = of_int (round_half_even (a / 2 powi e)) * 2 powi e
           in if 2 powi 1024 \<le> r then (if x < 0 then NInf else PInf)
              else if r = 0 then (if x < 0 then NegZero else Fin 0)
              else Fin (if x < 0 then - r else r))"

text \<open>A finite value is a binary64 value when rounding leaves it unchanged.\<close>

fun is_double :: "jsnum \<Rightarrow> bool" where
  "is_double (Fin r) = (round64 r = Fin r)"
| "is_double _ = True"

fun is_inf :: "jsnum \<Rightarrow> bool" where
  "is_inf NInf = True"
| "is_inf PInf = True"
| "is_inf _ = False"

fun is_zero :: "jsnum \<Rightarrow> bool" where
  "is_zero NegZero = True"
| "is_zero (Fin r) = (r = 0)"
| "is_zero _ = False"

text \<open>The sign bit of a number other than \<open>NaN\<close>.\<close>

fun sign_bit :: "jsnum \<Rightarrow> bool" where
  "sign_bit NInf = True"
| "sign_bit NegZero = True"
| "sign_bit (Fin r) = (r < 0)"
| "sign_bit _ = False"

text \<open>The rational denoted by a finite number.\<close>

fun val :: "jsnum \<Rightarrow> rat" where
  "val (Fin r) = r"
| "val _ = 0"

definition signed_zero :: "bool \<Rightarrow> jsnum" where
  "signed_zero neg = (if neg then NegZero else Fin 0)"

definition signed_inf :: "bool \<Rightarrow> jsnum" where
  "signed_inf neg = (if neg then NInf else PInf)"

fun js_neg :: "jsnum \<Rightarrow> jsnum" where
  "js_neg NaN = NaN"
| "js_neg NInf = PInf"
| "js_neg PInf = NInf"
| "js_neg NegZero = Fin 0"
| "js_neg (Fin r) = (if r = 0 then NegZero else Fin (- r))"

text \<open>\<^verbatim>\<open>x + y\<close>\<close>

definition js_add :: "jsnum \<Rightarrow> jsnum \<Rightarrow> jsnum" where
  "js_add x y =
     (if x = NaN \<or> y = NaN then NaN
      else if is_inf x then (if is_inf y \<and> x \<noteq> y then NaN else x)
      else if is_inf y then y
      else if x = NegZero \<and> y = NegZero then NegZero
      else round64 (val x + val y))"

text \<open>\<^verbatim>\<open>x - y\<close>\<close>

definition js_sub :: "jsnum \<Rightarrow> jsnum \<Rightarrow> jsnum" where
  "js_sub x y = js_add x (js_neg y)"

text \<open>\<^verbatim>\<open>x * y\<close>\<close>

definition js_mul :: "jsnum \<Rightarrow> jsnum \<Rightarrow> jsnum" where
  "js_mul x y =
     (if x = NaN \<or> y = NaN then NaN
      else if is_inf x \<or> is_inf y then
        (if is_zero x \<or> is_zero y then NaN else signed_inf (sign_bit x \<noteq> sign_bit y))
      else if is_zero x \<or> is_zero y then signed_zero (sign_bit x \<noteq> sign_bit y)
      else round64 (val x * val y))"

text \<open>\<^verbatim>\<open>x / y\<close>\<close>

definition js_div :: "jsnum \<Rightarrow> jsnum \<Rightarrow> jsnum" where
  "js_div x y =
     (if x = NaN \<or> y = NaN then NaN
      else if is_inf x then (if is_inf y then NaN else signed_inf (sign_bit x \<noteq> sign_bit y))
      else if is_inf y then signed_zero (sign_bit x \<noteq> sign_bit y)
      else if is_zero y then (if is_zero x then NaN else signed_inf (sign_bit x \<noteq> sign_bit y))
      else if is_zero x then signed_zero (sign_bit x \<noteq> sign_bit y)
      else round64 (val x / val y))"

text \<open>\<^verbatim>\<open>Math.abs(x)\<close>\<close>

fun js_abs :: "jsnum \<Rightarrow> jsnum" where
  "js_abs NaN = NaN"
| "js_abs NInf = PInf"
| "js_abs PInf = PInf"
| "js_abs NegZero = Fin 0"
| "js_abs (Fin r) = Fin \<bar>r\<bar>"

text \<open>\<^verbatim>\<open>x < y\<close> and \<^verbatim>\<open>x > y\<close>: false when either side is \<open>NaN\<close>; the two zeros are equal.\<close>

fun js_lt :: "jsnum \<Rightarrow> jsnum \<Rightarrow> bool" where
  "js_lt NaN _ = False"
| "js_lt _ NaN = False"
| "js_lt PInf _ = False"
| "js_lt _ NInf = False"
| "js_lt NInf _ = True"
| "js_lt _ PInf = True"
| "js_lt x y = (val x < val y)"

definition js_gt :: "jsnum \<Rightarrow> jsnum \<Rightarrow> bool" where
  "js_gt x y = js_lt y x"

section \<open>Cell values\<close>

text \<open>
  A cell of the table holds a number, a string, a boolean, \<^verbatim>\<open>null\<close> or \<^verbatim>\<open>undefined\<close>.
  \<open>numeric_non_nan v\<close> is the test \<^verbatim>\<open>typeof v === 'number' && !isNaN(v)\<close> that the source
  applies in \<^verbatim>\<open>calculateStatistics\<close>, \<^verbatim>\<open>detectAnomaly\<close> and \<^verbatim>\<open>analyzeDataset\<close>.
\<close>

datatype jsval = JUndefined | JNull | JBool bool | JNum jsnum | JStr string

fun numeric_non_nan :: "jsval \<Rightarrow> bool" where
  "numeric_non_nan (JNum x) = (x \<noteq> NaN)"
| "numeric_non_nan _ = False"

fun the_num :: "jsval \<Rightarrow> jsnum" where
  "the_num (JNum x) = x"
| "the_num _ = NaN"

section \<open>Array.prototype.sort with a comparator\<close>

text \<open>
  \<^verbatim>\<open>sort\<close> is stable, and an element moves behind another one exactly when the comparator
  returns a number greater than zero (\<open>NaN\<close> counts as zero). The model is the stable
  insertion sort; for a comparator that is consistent, every stable sort gives this result.
\<close>

definition js_gt0 :: "jsnum \<Rightarrow> bool" where
  "js_gt0 v = js_lt (Fin 0) v"

fun insort_cmp :: "('a \<Rightarrow> 'a \<Rightarrow> jsnum) \<Rightarrow> 'a \<Rightarrow> 'a list \<Rightarrow> 'a list" where
  "insort_cmp cmp x [] = [x]"
| "insort_cmp cmp x (y # ys) =
     (if js_gt0 (cmp x y) then y # insort_cmp cmp x ys else x # y # ys)"

definition js_sort :: "('a \<Rightarrow> 'a \<Rightarrow> jsnum) \<Rightarrow> 'a list \<Rightarrow> 'a list" where
  "js_sort cmp xs = foldr (insort_cmp cmp) xs []"

section \<open>calculateStatistics\<close>

text \<open>
  The object that \<^verbatim>\<open>calculateStatistics\<close> returns. Its fields \<^verbatim>\<open>min\<close>, \<^verbatim>\<open>max\<close> and \<^verbatim>\<open>count\<close>
  are \<open>min_stat\<close>, \<open>max_stat\<close> and \<open>count_stat\<close> here; the count is an array length.
\<close>

record stats =
  q1 :: jsnum
  q3 :: jsnum
  iqr :: jsnum
  median :: jsnum
  mean :: jsnum
  min_stat :: jsnum
  max_stat :: jsnum
  lowerBound :: jsnum
  upperBound :: jsnum
  lowerExtreme :: jsnum
  upperExtreme :: jsnum
  count_stat :: nat

text \<open>
  \<^verbatim>\<open>Math.floor(n * c)\<close> for an array length \<open>n\<close> and \<open>c\<close> one of 0.25, 0.5, 0.75. These
  constants are binary fractions and an array length is below \<open>2 ^ 32\<close>, so the product
  is exact in binary64.
\<close>

definition floor_mul :: "nat \<Rightarrow> rat \<Rightarrow> nat" where
  "floor_mul n c = nat \<lfloor>of_nat n * c\<rfloor>"

text \<open>\<^verbatim>\<open>values.filter(v => typeof v === 'number' && !isNaN(v))\<close>\<close>

definition numericValues :: "jsval list \<Rightarrow> jsnum list" where
  "numericValues values = map the_num (filter numeric_non_nan values)"

text \<open>
  The indices read from \<open>sorted\<close> are within range (lemma \<open>floor_mul_less\<close> below), so
  no read yields \<^verbatim>\<open>undefined\<close>. \<open>None\<close> is the \<^verbatim>\<open>null\<close> the source returns.
\<close>

definition calculateStatistics :: "jsval list \<Rightarrow> stats option" where
  "calculateStatistics values =
     (let nvs = numericValues values in
      if length nvs = 0 then None
      else
        let sorted = js_sort (\<lambda>a b. js_sub a b) nvs;
            n = length sorted;
            q1 = sorted ! floor_mul n (1 / 4);
            q3 = sorted ! floor_mul n (3 / 4);
            iqr = js_sub q3 q1;
            median = sorted ! floor_mul n (1 / 2);
            mean = js_div (foldl js_add (Fin 0) nvs) (Fin (of_nat n));
            lowerBound = js_sub q1 (js_mul (Fin (3 / 2)) iqr);
            upperBound = js_add q3 (js_mul (Fin (3 / 2)) iqr);
            lowerExtreme = js_sub q1 (js_mul (Fin 3) iqr);
            upperExtreme = js_add q3 (js_mul (Fin 3) iqr)
        in Some \<lparr>q1 = q1, q3 = q3, iqr = iqr, median = median, mean = mean,
                 min_stat = sorted ! 0, max_stat = sorted ! (n - 1),
                 lowerBound = lowerBound, upperBound = upperBound,
                 lowerExtreme = lowerExtreme, upperExtreme = upperExtreme,
                 count_stat = n\<rparr>)"

section \<open>detectAnomaly\<close>

record anomaly =
  isAnomaly :: bool
  type :: "string option"
  severity :: "string option"

definition detectAnomaly :: "jsval \<Rightarrow> stats option \<Rightarrow> anomaly" where
  "detectAnomaly v st =
     (case st of
        None \<Rightarrow> \<lparr>isAnomaly = False, type = None, severity = None\<rparr>
      | Some s \<Rightarrow>
          if \<not> numeric_non_nan v then \<lparr>isAnomaly = False, type = None, severity = None\<rparr>
          else if js_lt (the_num v) (lowerExtreme s) then
            \<lparr>isAnomaly = True, type = Some ''low'', severity = Some ''extreme''\<rparr>
          else if js_gt (the_num v) (upperExtreme s) then
            \<lparr>isAnomaly = True, type = Some ''high'', severity = Some ''extreme''\<rparr>
          else if js_lt (the_num v) (lowerBound s) then
            \<lparr>isAnomaly = True, type = Some ''low'', severity = Some ''mild''\<rparr>
          else if js_gt (the_num v) (upperBound s) then
            \<lparr>isAnomaly = True, type = Some ''high'', severity = Some ''mild''\<rparr>
          else \<lparr>isAnomaly = False, type = None, severity = None\<rparr>)"

section \<open>analyzeDataset\<close>

text \<open>
  The data are an array of row objects. A row object maps a column name to the value
  of its cell; a property that the row does not have reads as \<^verbatim>\<open>undefined\<close> (inherited
  properties are functions or objects, which every test of the source treats like any
  value that is not a number). A row parsed from JSON can have an own property of any
  name, \<^verbatim>\<open>__proto__\<close> included. Column names are strings.
\<close>

type_synonym row = "string \<Rightarrow> jsval"

text \<open>
  An argument of a call is an array, a primitive value (\<^verbatim>\<open>undefined\<close> when it is absent)
  or a plain object without array methods. Calling \<^verbatim>\<open>filter\<close>, \<^verbatim>\<open>map\<close> or \<^verbatim>\<open>forEach\<close> on
  anything but an array raises a \<^verbatim>\<open>TypeError\<close>.
\<close>

datatype 'a js_arg = Prim jsval | PlainObject | Array "'a list"

datatype js_error = TypeError

fun filter_err :: "('a \<Rightarrow> js_error + bool) \<Rightarrow> 'a list \<Rightarrow> js_error + 'a list" where
  "filter_err p [] = Inr []"
| "filter_err p (x # xs) =
     (case p x of
        Inl e \<Rightarrow> Inl e
      | Inr b \<Rightarrow>
          (case filter_err p xs of
             Inl e \<Rightarrow> Inl e
           | Inr ys \<Rightarrow> Inr (if b then x # ys else ys)))"

fun js_filter :: "('a \<Rightarrow> js_error + bool) \<Rightarrow> 'a js_arg \<Rightarrow> js_error + 'a list" where
  "js_filter p (Array xs) = filter_err p xs"
| "js_filter p _ = Inl TypeError"

fun js_map :: "('a \<Rightarrow> 'b) \<Rightarrow> 'a js_arg \<Rightarrow> js_error + 'b list" where
  "js_map f (Array xs) = Inr (map f xs)"
| "js_map f _ = Inl TypeError"

text \<open>\<^verbatim>\<open>forEach\<close> with a callback that updates local state.\<close>

fun js_forEach :: "('a \<Rightarrow> 's \<Rightarrow> 's) \<Rightarrow> 'a js_arg \<Rightarrow> 's \<Rightarrow> js_error + 's" where
  "js_forEach f (Array xs) s = Inr (fold f xs s)"
| "js_forEach f _ s = Inl TypeError"

fun forEach_err :: "('a \<Rightarrow> 's \<Rightarrow> js_error + 's) \<Rightarrow> 'a list \<Rightarrow> 's \<Rightarrow> js_error + 's" where
  "forEach_err f [] s = Inr s"
| "forEach_err f (x # xs) s =
     (case f x s of Inl e \<Rightarrow> Inl e | Inr s' \<Rightarrow> forEach_err f xs s')"

text \<open>
  The objects \<^verbatim>\<open>columnStats\<close> and \<^verbatim>\<open>anomalyCounts\<close> start as \<^verbatim>\<open>{}\<close> and are filled by
  assignments \<^verbatim>\<open>obj[k] = v\<close>. They are the association lists of their own properties,
  in insertion order: the keys are \<open>map fst\<close> and \<^verbatim>\<open>Object.values\<close> is \<open>map snd\<close>
  (JavaScript lists integer-like keys first, which does not change a sum of counts).
  An assignment adds or replaces the own property \<open>k\<close>, except for the name
  \<^verbatim>\<open>__proto__\<close>: that name is an accessor inherited from \<^verbatim>\<open>Object.prototype\<close>, and the
  assignment runs its setter, which creates no own property. The setter ignores a
  number, so \<^verbatim>\<open>anomalyCounts\<close> stays as it was; it makes an object the prototype of
  \<^verbatim>\<open>columnStats\<close>, which again adds no key (the statistics assigned are never \<^verbatim>\<open>null\<close>,
  lemma \<open>column_stats_count\<close>, so the accessor stays inherited). The anomaly counts are
  numbers that hold small integers, on which \<^verbatim>\<open>+\<close> is exact; they are natural numbers
  here.
\<close>

definition js_assign :: "string \<Rightarrow> 'v \<Rightarrow> (string \<times> 'v) list \<Rightarrow> (string \<times> 'v) list" where
  "js_assign k v obj = (if k = ''__proto__'' then obj else AList.update k v obj)"

record analysis =
  columnStats :: "(string \<times> stats option) list"
  anomalyCounts :: "(string \<times> nat) list"
  numericColumns :: "string list"
  totalAnomalies :: nat

definition analyzeDataset :: "row js_arg \<Rightarrow> string js_arg \<Rightarrow> js_error + analysis" where
  "analyzeDataset data columns =
     (case js_filter
             (\<lambda>col. case js_map (\<lambda>row. row col) data of
                      Inl e \<Rightarrow> Inl e
                    | Inr values \<Rightarrow> Inr (list_ex numeric_non_nan values))
             columns of
        Inl e \<Rightarrow> Inl e
      | Inr numericColumns' \<Rightarrow>
          (case forEach_err
                  (\<lambda>col (columnStats', anomalyCounts').
                     case js_map (\<lambda>row. row col) data of
                       Inl e \<Rightarrow> Inl e
                     | Inr values \<Rightarrow>
                         let stats = calculateStatistics values in
                         (case js_forEach
                                 (\<lambda>row cnt.
                                    if isAnomaly (detectAnomaly (row col) stats)
                                    then cnt + 1 else cnt)
                                 data (0 :: nat) of
                            Inl e \<Rightarrow> Inl e
                          | Inr cnt \<Rightarrow>
                              Inr (js_assign col stats columnStats',
                                   js_assign col cnt anomalyCounts')))
                  numericColumns' ([], []) of
             Inl e \<Rightarrow> Inl e
           | Inr (columnStats', anomalyCounts') \<Rightarrow>
               Inr \<lparr>columnStats = columnStats', anomalyCounts = anomalyCounts',
                    numericColumns = numericColumns',
                    totalAnomalies = foldl (+) 0 (map snd anomalyCounts')\<rparr>))"

subsection \<open>The caller in DataTable.jsx\<close>

text \<open>
  The table component computes \<^verbatim>\<open>anomalyAnalysis\<close> as
  \<^verbatim>\<open>if (!data || data.length === 0 || !columns) return null; return analyzeDataset(data, columns);\<close>
  \<open>None\<close> is the \<^verbatim>\<open>null\<close> it returns.
\<close>

fun truthy_val :: "jsval \<Rightarrow> bool" where
  "truthy_val JUndefined = False"
| "truthy_val JNull = False"
| "truthy_val (JBool b) = b"
| "truthy_val (JNum x) = (x \<noteq> NaN \<and> \<not> is_zero x)"
| "truthy_val (JStr s) = (s \<noteq> [])"

fun truthy :: "'a js_arg \<Rightarrow> bool" where
  "truthy (Prim v) = truthy_val v"
| "truthy _ = True"

text \<open>\<^verbatim>\<open>x.length === 0\<close>, for a value \<open>x\<close> that is neither \<^verbatim>\<open>null\<close> nor \<^verbatim>\<open>undefined\<close>.\<close>

fun length_is_zero :: "'a js_arg \<Rightarrow> bool" where
  "length_is_zero (Array xs) = (length xs = 0)"
| "length_is_zero (Prim (JStr s)) = (length s = 0)"
| "length_is_zero _ = False"

definition anomalyAnalysis ::
  "row js_arg \<Rightarrow> string js_arg \<Rightarrow> js_error + analysis option" where
  "anomalyAnalysis data columns =
     (if \<not> truthy data \<or> length_is_zero data \<or> \<not> truthy columns then Inr None
      else case analyzeDataset data columns of Inl e \<Rightarrow> Inl e | Inr r \<Rightarrow> Inr (Some r))"

section \<open>getAnomalyTooltip\<close>

text \<open>
  \<^verbatim>\<open>x.toFixed(f)\<close>, for \<open>f\<close> from 0 to 100. A number that is not finite prints as
  \<^verbatim>\<open>"NaN"\<close>, \<^verbatim>\<open>"Infinity"\<close> or \<^verbatim>\<open>"-Infinity"\<close>. A finite number below \<open>10 ^ 21\<close> in
  magnitude prints the integer \<open>n\<close> nearest to \<open>\<bar>x\<bar> * 10 ^ f\<close> (the larger one of two)
  with a decimal point before its last \<open>f\<close> digits, after a minus sign when \<open>x < 0\<close>;
  negative zero prints as zero. From \<open>10 ^ 21\<close> on the result is the shortest decimal
  representation that \<^verbatim>\<open>String(x)\<close> returns, which is left to the parameter \<open>large\<close>.
\<close>

definition digit_char :: "int \<Rightarrow> char" where
  "digit_char n = char_of (48 + n)"

function dec_digits :: "int \<Rightarrow> string" where
  "dec_digits n =
     (if n < 10 then [digit_char n] else dec_digits (n div 10) @ [digit_char (n mod 10)])"
  by pat_completeness auto
termination
  by (relation "measure nat") auto

declare dec_digits.simps [simp del]

definition fixed_digits :: "rat \<Rightarrow> nat \<Rightarrow> string" where
  "fixed_digits x f =
     (let n = \<lfloor>\<bar>x\<bar> * 10 ^ f + 1 / 2\<rfloor>;
          m = dec_digits n;
          m = (if length m \<le> f then replicate (f + 1 - length m) CHR ''0'' @ m else m);
          k = length m
      in (if x < 0 then ''-'' else []) @
         (if f = 0 then m else take (k - f) m @ ''.'' @ drop (k - f) m))"

fun toFixed :: "(rat \<Rightarrow> string) \<Rightarrow> jsnum \<Rightarrow> nat \<Rightarrow> string" where
  "toFixed large NaN f = ''NaN''"
| "toFixed large PInf f = ''Infinity''"
| "toFixed large NInf f = ''-Infinity''"
| "toFixed large NegZero f = fixed_digits 0 f"
| "toFixed large (Fin r) f =
     (if 10 ^ 21 \<le> \<bar>r\<bar> then (if r < 0 then ''-'' else []) @ large \<bar>r\<bar> else fixed_digits r f)"

text \<open>The pictographs that open the two messages, as the bytes of the source file.\<close>

definition extreme_mark :: string where
  "extreme_mark =
     [CHR 0xE2, CHR 0x80, CHR 0x9A, CHR 0xC3, CHR 0xB6, CHR 0xE2, CHR 0x80, CHR 0xA0,
      CHR 0xC3, CHR 0x94, CHR 0xE2, CHR 0x88, CHR 0x8F, CHR 0xC3, CHR 0xA8]"

definition mild_mark :: string where
  "mild_mark =
     [CHR 0xEF, CHR 0xA3, CHR 0xBF, CHR 0xC3, CHR 0xBC, CHR 0xC3, CHR 0xAC, CHR 0xC3, CHR 0xA4]"

definition direction :: "anomaly \<Rightarrow> string" where
  "direction a = (if type a = Some ''high'' then ''above'' else ''below'')"

definition bound :: "anomaly \<Rightarrow> stats \<Rightarrow> jsnum" where
  "bound a s = (if type a = Some ''high'' then upperBound s else lowerBound s)"

definition diff :: "(rat \<Rightarrow> string) \<Rightarrow> anomaly \<Rightarrow> stats \<Rightarrow> jsnum \<Rightarrow> string" where
  "diff large a s v = toFixed large (js_abs (js_sub v (bound a s))) 2"

text \<open>The number that \<^verbatim>\<open>percentDiff\<close> prints: \<^verbatim>\<open>(Math.abs(value - stats.mean) / stats.mean) * 100\<close>.\<close>

definition percent :: "stats \<Rightarrow> jsnum \<Rightarrow> jsnum" where
  "percent s v = js_mul (js_div (js_abs (js_sub v (mean s))) (mean s)) (Fin 100)"

definition percentDiff :: "(rat \<Rightarrow> string) \<Rightarrow> stats \<Rightarrow> jsnum \<Rightarrow> string" where
  "percentDiff large s v = toFixed large (percent s v) 1"

definition getAnomalyTooltip ::
  "(rat \<Rightarrow> string) \<Rightarrow> anomaly \<Rightarrow> stats \<Rightarrow> jsnum \<Rightarrow> string" where
  "getAnomalyTooltip large a s v =
     (if \<not> isAnomaly a then []
      else if severity a = Some ''extreme'' then
        extreme_mark @ '' Extreme outlier! '' @ percentDiff large s v @ ''% '' @ direction a
          @ '' average (deviation: '' @ diff large a s v @ '')''
      else
        mild_mark @ '' Outlier detected: '' @ percentDiff large s v @ ''% '' @ direction a
          @ '' average'')"

section \<open>Notions used in the statements\<close>

text \<open>
  The order that the comparator \<^verbatim>\<open>(a, b) => a - b\<close> induces on the numbers other than
  \<open>NaN\<close>: negative infinity first, positive infinity last, the two zeros equal.
\<close>

fun order_key :: "jsnum \<Rightarrow> nat \<times> rat" where
  "order_key NInf = (0, 0)"
| "order_key PInf = (2, 0)"
| "order_key x = (1, val x)"

text \<open>A list of binary64 values.\<close>

definition doubles :: "jsnum list \<Rightarrow> bool" where
  "doubles xs = (\<forall>x \<in> set xs. is_double x)"

text \<open>
  What \<^verbatim>\<open>analyzeDataset\<close> computes for one column of an array of rows: whether the
  column is numeric, its statistics, and its number of anomalous cells.
\<close>

definition numeric_column :: "row list \<Rightarrow> string \<Rightarrow> bool" where
  "numeric_column rows col = list_ex numeric_non_nan (map (\<lambda>row. row col) rows)"

definition column_stats :: "row list \<Rightarrow> string \<Rightarrow> stats option" where
  "column_stats rows col = calculateStatistics (map (\<lambda>row. row col) rows)"

definition column_count :: "row list \<Rightarrow> string \<Rightarrow> nat" where
  "column_count rows col =
     length (filter (\<lambda>row. isAnomaly (detectAnomaly (row col) (column_stats rows col))) rows)"

text \<open>
  The specification speaks of finite numbers; \<open>spec_finite_number\<close> follows its words
  (a number that is neither \<open>NaN\<close> nor an infinity).
\<close>

fun spec_finite_number :: "jsval \<Rightarrow> bool" where
  "spec_finite_number (JNum x) = (x \<noteq> NaN \<and> \<not> is_inf x)"
| "spec_finite_number _ = False"

text \<open>The result of an analysis that finds no numeric column.\<close>

definition empty_analysis :: analysis where
  "empty_analysis =
     \<lparr>columnStats = [], anomalyCounts = [], numericColumns = [], totalAnomalies = 0\<rparr>"

text \<open>
  A table of five rows with a numeric column \<^verbatim>\<open>temp\<close>, whose value 96 is an extreme
  outlier, and a column \<^verbatim>\<open>name\<close> of strings; and the analysis of this table.
\<close>

definition example_rows :: "row list" where
  "example_rows =
     [(\<lambda>_. JUndefined)(''temp'' := JNum (Fin 15), ''name'' := JStr ''ok''),
      (\<lambda>_. JUndefined)(''temp'' := JNum (Fin 16), ''name'' := JStr ''bad''),
      (\<lambda>_. JUndefined)(''temp'' := JNum (Fin 96), ''name'' := JStr ''ok''),
      (\<lambda>_. JUndefined)(''temp'' := JNum (Fin 17), ''name'' := JStr ''ok''),
      (\<lambda>_. JUndefined)(''temp'' := JNum (Fin 16), ''name'' := JStr ''ok'')]"

definition example_analysis :: analysis where
  "example_analysis =
     \<lparr>columnStats =
        [(''temp'',
          Some \<lparr>q1 = Fin 16, q3 = Fin 17, iqr = Fin 1, median = Fin 16, mean = Fin 32,
                min_stat = Fin 15, max_stat = Fin 96, lowerBound = Fin (29 / 2),
                upperBound = Fin (37 / 2), lowerExtreme = Fin 13, upperExtreme = Fin 20,
                count_stat = 5\<rparr>)],
      anomalyCounts = [(''temp'', 1)],
      numericColumns = [''temp''],
      totalAnomalies = 1\<rparr>"

text \<open>
  The same table with the numbers also under a column named \<^verbatim>\<open>__proto__\<close>, as
  \<^verbatim>\<open>JSON.parse\<close> builds it from a file with that header.
\<close>

definition proto_rows :: "row list" where
  "proto_rows =
     [(\<lambda>_. JUndefined)(''temp'' := JNum (Fin 15), ''__proto__'' := JNum (Fin 15)),
      (\<lambda>_. JUndefined)(''temp'' := JNum (Fin 16), ''__proto__'' := JNum (Fin 16)),
      (\<lambda>_. JUndefined)(''temp'' := JNum (Fin 96), ''__proto__'' := JNum (Fin 96)),
      (\<lambda>_. JUndefined)(''temp'' := JNum (Fin 17), ''__proto__'' := JNum (Fin 17)),
      (\<lambda>_. JUndefined)(''temp'' := JNum (Fin 16), ''__proto__'' := JNum (Fin 16))]"

text \<open>
  \<^verbatim>\<open>Number.MIN_VALUE\<close>, the smallest positive binary64 value (about \<^verbatim>\<open>5e-324\<close>).
\<close>

definition min_value :: rat where
  "min_value = 2 powi (- 1074)"

text \<open>The arithmetic mean of a non-empty sequence, as the specification names it.\<close>

definition spec_arithmetic_mean :: "rat list \<Rightarrow> rat" where
  "spec_arithmetic_mean xs = sum_list xs / of_nat (length xs)"

text \<open>
  The statistics of \<^verbatim>\<open>[5, -5, -Number.MIN_VALUE]\<close>: the sum is \<^verbatim>\<open>-Number.MIN_VALUE\<close>, and a
  third of it rounds to negative zero.
\<close>

definition underflow_stats :: stats where
  "underflow_stats =
     \<lparr>q1 = Fin (- 5), q3 = Fin 5, iqr = Fin 10, median = Fin (- min_value), mean = NegZero,
      min_stat = Fin (- 5), max_stat = Fin 5, lowerBound = Fin (- 20), upperBound = Fin 20,
      lowerExtreme = Fin (- 35), upperExtreme = Fin 35, count_stat = 3\<rparr>"

section \<open>Rounding to binary64\<close>

lemma round_half_even_of_int: "round_half_even (of_int n) = n"
  by (simp add: round_half_even_def)

lemma round_half_even_ge: "\<lfloor>x\<rfloor> \<le> round_half_even x"
  by (simp add: round_half_even_def Let_def)

lemma round_half_even_nonneg: "0 \<le> x \<Longrightarrow> 0 \<le> round_half_even x"
  using round_half_even_ge [of x] by (smt (verit) zero_le_floor)

lemma round_half_even_pos: "1 \<le> x \<Longrightarrow> 1 \<le> round_half_even x"
  using round_half_even_ge [of x] by (smt (verit) one_le_floor)

lemma floor_log2_bounds:
  assumes "0 < a"
  shows "2 powi floor_log2 a \<le> a" and "a < 2 powi (floor_log2 a + 1)"
proof -
  obtain p q where pq: "quotient_of a = (p, q)" by (cases "quotient_of a")
  then have q: "0 < q" and a: "a = of_int p / of_int q"
    using quotient_of_denom_pos quotient_of_div by auto
  with assms have p: "0 < p"
    by (simp add: zero_less_divide_iff)
  define bp where "bp = bitlen p"
  define bq where "bq = bitlen q"
  have bp: "2 ^ nat (bp - 1) \<le> p" "p < 2 ^ nat bp"
    using bitlen_bounds [OF p] by (simp_all add: bp_def)
  have bq: "2 ^ nat (bq - 1) \<le> q" "q < 2 ^ nat bq"
    using bitlen_bounds [OF q] by (simp_all add: bq_def)
  have bp1: "1 \<le> bp" using p by (simp add: bp_def bitlen_alt_def)
  have bq1: "1 \<le> bq" using q by (simp add: bq_def bitlen_alt_def)
  have P1: "(2::rat) powi (bp - 1) \<le> of_int p"
  proof -
    have "(of_int (2 ^ nat (bp - 1)) :: rat) \<le> of_int p" using bp(1) by (simp only: of_int_le_iff)
    then show ?thesis using bp1 by (simp add: power_int_def)
  qed
  have P2: "of_int p < (2::rat) powi bp"
  proof -
    have "(of_int p :: rat) < of_int (2 ^ nat bp)" using bp(2) by (simp only: of_int_less_iff)
    then show ?thesis using bp1 by (simp add: power_int_def)
  qed
  have Q1: "(2::rat) powi (bq - 1) \<le> of_int q"
  proof -
    have "(of_int (2 ^ nat (bq - 1)) :: rat) \<le> of_int q" using bq(1) by (simp only: of_int_le_iff)
    then show ?thesis using bq1 by (simp add: power_int_def)
  qed
  have Q2: "of_int q < (2::rat) powi bq"
  proof -
    have "(of_int q :: rat) < of_int (2 ^ nat bq)" using bq(2) by (simp only: of_int_less_iff)
    then show ?thesis using bq1 by (simp add: power_int_def)
  qed
  have qpos: "(0::rat) < of_int q" using q by simp
  have ppos: "(0::rat) < of_int p" using p by simp
  have lo: "(2::rat) powi (bp - bq - 1) < a"
  proof -
    have "(2::rat) powi (bp - bq - 1) * of_int q < 2 powi (bp - bq - 1) * 2 powi bq"
      using Q2 by (simp add: zero_less_power_int)
    also have "\<dots> = 2 powi (bp - 1)"
      by (simp add: power_int_add [symmetric])
    also have "\<dots> \<le> of_int p" by (rule P1)
    finally show ?thesis using qpos by (simp add: a pos_less_divide_eq)
  qed
  have hi: "a < (2::rat) powi (bp - bq + 1)"
  proof -
    have "of_int p < (2::rat) powi bp" by (rule P2)
    also have "\<dots> = 2 powi (bp - bq + 1) * 2 powi (bq - 1)"
      by (simp add: power_int_add [symmetric])
    also have "\<dots> \<le> 2 powi (bp - bq + 1) * of_int q"
      using Q1 by (simp add: zero_less_power_int)
    finally show ?thesis using qpos by (simp add: a pos_divide_less_eq)
  qed
  have fl: "floor_log2 a = (if a < 2 powi (bp - bq) then bp - bq - 1 else bp - bq)"
    by (simp add: floor_log2_def pq bp_def bq_def)
  show "2 powi floor_log2 a \<le> a"
    using lo by (simp add: fl)
  show "a < 2 powi (floor_log2 a + 1)"
    using hi by (simp add: fl)
qed

lemma powi2_less_imp: "(2::rat) powi m < 2 powi n \<Longrightarrow> m < n"
proof (rule ccontr)
  assume lt: "(2::rat) powi m < 2 powi n" and "\<not> m < n"
  then have "n \<le> m" by simp
  then have "(2::rat) powi n \<le> 2 powi m" by (rule power_int_increasing) simp
  with lt show False by simp
qed

lemma quantum_ge: "- 1074 \<le> quantum a"
  by (simp add: quantum_def)

lemma quantum_le: "0 < a \<Longrightarrow> quantum a = - 1074 \<or> 2 powi quantum a \<le> a"
proof -
  assume a: "0 < a"
  show ?thesis
  proof (cases "floor_log2 a - 52 \<le> - 1074")
    case True
    then show ?thesis by (simp add: quantum_def)
  next
    case False
    then have q: "quantum a = floor_log2 a - 52" by (simp add: quantum_def)
    have "(2::rat) powi (floor_log2 a - 52) \<le> 2 powi floor_log2 a"
      by (rule power_int_increasing) simp_all
    also have "\<dots> \<le> a" using a by (rule floor_log2_bounds)
    finally show ?thesis by (simp add: q)
  qed
qed

lemma round64_zero: "round64 0 = Fin 0"
  by (simp add: round64_def)

lemma round64_exact:
  assumes x: "x = of_int m * 2 powi e"
    and m: "m \<noteq> 0" "\<bar>m\<bar> < 2 ^ 53"
    and e: "- 1074 \<le> e"
    and ov: "\<bar>x\<bar> < 2 powi 1024"
  shows "round64 x = Fin x"
proof -
  define a where "a = \<bar>x\<bar>"
  have a: "a = of_int \<bar>m\<bar> * 2 powi e"
    by (simp add: a_def x abs_mult)
  have apos: "0 < a" using m by (simp add: a)
  define k where "k = quantum a"
  have "2 powi floor_log2 a \<le> a" using apos by (rule floor_log2_bounds)
  also have "a < 2 ^ 53 * 2 powi e"
  proof -
    have "(of_int \<bar>m\<bar> :: rat) < of_int (2 ^ 53)" using m(2) by (simp only: of_int_less_iff)
    then show ?thesis by (simp add: a)
  qed
  also have "(2::rat) ^ 53 * 2 powi e = 2 powi (53 + e)"
    by (simp add: power_int_add)
  finally have "floor_log2 a < 53 + e" by (rule powi2_less_imp)
  with e have ke: "k \<le> e" by (simp add: k_def quantum_def)
  have "a / 2 powi k = of_int \<bar>m\<bar> * 2 powi (e - k)"
    by (simp add: a power_int_diff)
  also have "\<dots> = of_int (\<bar>m\<bar> * 2 ^ nat (e - k))"
    using ke by (simp add: power_int_def)
  finally have "round_half_even (a / 2 powi k) = \<bar>m\<bar> * 2 ^ nat (e - k)"
    by (simp only: round_half_even_of_int)
  then have "rat_of_int (round_half_even (a / 2 powi k)) * 2 powi k
      = of_int \<bar>m\<bar> * (2 powi (e - k) * 2 powi k)"
    using ke by (simp add: power_int_def)
  also have "\<dots> = a"
    by (simp add: a power_int_add [symmetric])
  finally have r: "rat_of_int (round_half_even (a / 2 powi k)) * 2 powi k = a" .
  have x0: "x \<noteq> 0" using apos by (simp add: a_def)
  have "round64 x = (if 2 powi 1024 \<le> a then (if x < 0 then NInf else PInf)
              else if a = 0 then (if x < 0 then NegZero else Fin 0)
              else Fin (if x < 0 then - a else a))"
    using x0 r by (simp add: round64_def Let_def a_def [symmetric] k_def [symmetric])
  also have "\<dots> = Fin x"
    using ov apos by (auto simp: a_def)
  finally show ?thesis .
qed

lemma round64_of_int: "\<bar>n\<bar> < 2 ^ 53 \<Longrightarrow> round64 (of_int n) = Fin (of_int n)"
proof (cases "n = 0")
  case True
  then show ?thesis by (simp add: round64_def)
next
  case False
  assume n: "\<bar>n\<bar> < 2 ^ 53"
  have "(of_int \<bar>n\<bar> :: rat) < of_int (2 ^ 53)" using n by (simp only: of_int_less_iff)
  also have "(of_int (2 ^ 53) :: rat) < 2 powi 1024" by simp
  finally have "\<bar>rat_of_int n\<bar> < 2 powi 1024" by simp
  then show ?thesis
    using False n by (intro round64_exact [of _ n 0]) simp_all
qed

lemma round64_numeral:
  "(numeral k :: int) < 2 ^ 53 \<Longrightarrow> round64 (numeral k) = Fin (numeral k)"
  "(numeral k :: int) < 2 ^ 53 \<Longrightarrow> round64 (- numeral k) = Fin (- numeral k)"
  using round64_of_int [of "numeral k"] round64_of_int [of "- numeral k"] by simp_all

lemma round64_one: "round64 1 = Fin 1" "round64 (- 1) = Fin (- 1)"
  using round64_of_int [of 1] round64_of_int [of "- 1"] by simp_all

lemma round64_half_int:
  assumes "\<bar>n\<bar> < 2 ^ 53"
  shows "round64 (of_int n / 2) = Fin (of_int n / 2)"
proof (cases "n = 0")
  case True
  then show ?thesis by (simp add: round64_zero)
next
  case False
  have "(of_int \<bar>n\<bar> :: rat) < of_int (2 ^ 53)" using assms by (simp only: of_int_less_iff)
  also have "(of_int (2 ^ 53) :: rat) < 2 powi 1024" by simp
  finally have "\<bar>rat_of_int n / 2\<bar> < 2 powi 1024" by simp
  then show ?thesis
    using False assms by (intro round64_exact [of _ n "- 1"]) simp_all
qed

lemma round64_numeral_half:
  "(numeral k :: int) < 2 ^ 53 \<Longrightarrow> round64 (numeral k / 2) = Fin (numeral k / 2)"
  "(numeral k :: int) < 2 ^ 53 \<Longrightarrow> round64 (- (numeral k / 2)) = Fin (- (numeral k / 2))"
  using round64_half_int [of "numeral k"] round64_half_int [of "- numeral k"] by simp_all

lemma round64_half: "round64 (1 / 2) = Fin (1 / 2)"
  using round64_half_int [of 1] by simp

lemma round64_2p53: "round64 9007199254740992 = Fin 9007199254740992"
  "round64 (- 9007199254740992) = Fin (- 9007199254740992)"
  using round64_exact [of 9007199254740992 4503599627370496 1]
    round64_exact [of "- 9007199254740992" "- 4503599627370496" 1]
  by simp_all

lemma round64_2p53_2: "round64 9007199254740994 = Fin 9007199254740994"
  using round64_exact [of 9007199254740994 4503599627370497 1]
  by simp

lemma round64_eval:
  assumes "0 < x" "quantum x = k" "round_half_even (x / 2 powi k) = n" "0 < n"
    and "rat_of_int n * 2 powi k < 2 powi 1024"
  shows "round64 x = Fin (rat_of_int n * 2 powi k)"
  using assms by (simp add: round64_def Let_def)

lemma quantum_2p53_1: "quantum 9007199254740993 = 1"
  by code_simp

lemma round_half_even_2p53_1: "round_half_even (9007199254740993 / 2) = 4503599627370496"
  by code_simp

lemma round64_2p53_1: "round64 9007199254740993 = Fin 9007199254740992"
  using round64_eval [of 9007199254740993 1 4503599627370496]
  by (simp add: quantum_2p53_1 round_half_even_2p53_1)

lemma quantum_146_5: "quantum (146 / 5) = - 48"
  by code_simp

lemma round_half_even_146_5: "round_half_even (41095346599755776 / 5) = 8219069319951155"
  by code_simp

lemma round64_146_5: "round64 (146 / 5) = Fin (8219069319951155 / 281474976710656)"
  using round64_eval [of "146 / 5" "- 48" 8219069319951155]
  by (simp add: quantum_146_5 round_half_even_146_5)

text \<open>The sign of a rounded value.\<close>

lemma round64_neg: "x < 0 \<Longrightarrow> \<not> js_gt0 (round64 x)"
proof -
  assume x: "x < 0"
  have "0 \<le> rat_of_int (round_half_even (\<bar>x\<bar> / 2 powi quantum \<bar>x\<bar>)) * 2 powi quantum \<bar>x\<bar>"
    by (intro mult_nonneg_nonneg) (simp_all add: round_half_even_nonneg)
  with x show ?thesis
    by (simp add: round64_def Let_def js_gt0_def)
qed

lemma round64_pos:
  assumes x: "0 < x" and int: "x * 2 ^ 1074 = of_int z"
  shows "js_gt0 (round64 x)"
proof -
  define k where "k = quantum x"
  have "1 \<le> x / 2 powi k"
  proof -
    consider "k = - 1074" | "2 powi k \<le> x"
      using quantum_le [OF x] by (auto simp: k_def)
    then show ?thesis
    proof cases
      case 1
      from x have "0 < x * 2 ^ 1074" by simp
      then have "(0::rat) < of_int z" by (simp only: int)
      then have "1 \<le> z" by simp
      then have "(1::rat) \<le> of_int z" by simp
      also have "of_int z = x * 2 ^ 1074" by (simp only: int)
      also have "\<dots> = x / 2 powi (- 1074)"
        by (simp only: power_int_minus divide_inverse inverse_inverse_eq power_int_numeral)
      finally show ?thesis by (simp only: 1)
    next
      case 2
      then show ?thesis by (simp add: pos_le_divide_eq)
    qed
  qed
  then have n: "1 \<le> round_half_even (x / 2 powi k)" by (rule round_half_even_pos)
  then have "(1::rat) \<le> of_int (round_half_even (x / 2 powi k))" by simp
  then have "0 < rat_of_int (round_half_even (x / 2 powi k)) * 2 powi k"
    by (intro mult_pos_pos) simp_all
  with x n show ?thesis
    by (auto simp: round64_def Let_def js_gt0_def k_def)
qed

lemma is_double_scaled:
  assumes "round64 r = Fin r"
  shows "\<exists>z. r * 2 ^ 1074 = of_int z"
proof (cases "r = 0")
  case True
  then have "r * 2 ^ 1074 = of_int 0" by simp
  then show ?thesis by blast
next
  case False
  define k where "k = quantum \<bar>r\<bar>"
  define n where "n = round_half_even (\<bar>r\<bar> / 2 powi k)"
  have k: "- 1074 \<le> k" by (simp add: k_def quantum_ge)
  from assms False have "\<bar>r\<bar> = of_int n * 2 powi k"
    by (auto simp: round64_def Let_def k_def n_def split: if_splits)
  then have "\<bar>r\<bar> * 2 powi 1074 = of_int n * (2 powi k * 2 powi 1074)" by simp
  also have "\<dots> = of_int n * 2 powi (k + 1074)"
    by (simp add: power_int_add [of 2 k 1074] del: power_int_add_numeral power_int_add_numeral2)
  also have "\<dots> = of_int (n * 2 ^ nat (k + 1074))"
    using k by (simp add: power_int_def)
  finally have abs: "\<bar>r\<bar> * 2 ^ 1074 = of_int (n * 2 ^ nat (k + 1074))"
    by (simp only: power_int_numeral)
  show ?thesis
  proof (cases "r < 0")
    case True
    then have "r * 2 ^ 1074 = - (\<bar>r\<bar> * 2 ^ 1074)" by simp
    also have "\<dots> = of_int (- (n * 2 ^ nat (k + 1074)))" by (simp only: abs of_int_minus)
    finally show ?thesis by blast
  next
    case False
    then have "r * 2 ^ 1074 = \<bar>r\<bar> * 2 ^ 1074" by simp
    with abs show ?thesis by metis
  qed
qed

text \<open>Values at the bottom of the range.\<close>

lemma min_value_pos: "0 < min_value"
  by (simp add: min_value_def)

lemma min_value_less: "min_value < 1"
proof -
  have "min_value < 2 powi 0" unfolding min_value_def
    by (rule power_int_strict_increasing) simp_all
  then show ?thesis by simp
qed

lemma quantum_subnormal:
  assumes "0 < a" "a < 2 powi (- 1022)"
  shows "quantum a = - 1074"
proof -
  have "2 powi floor_log2 a \<le> a" using assms(1) by (rule floor_log2_bounds)
  also note assms(2)
  finally have "floor_log2 a < - 1022" by (rule powi2_less_imp)
  then show ?thesis by (simp add: quantum_def)
qed

lemma round_half_even_third: "round_half_even (1 / 3) = 0"
  by code_simp

lemma round64_min_value: "round64 (- min_value) = Fin (- min_value)"
proof -
  have "min_value \<le> 2 powi 1023" unfolding min_value_def
    by (rule power_int_increasing) simp_all
  also have "\<dots> < 2 powi 1024" by (rule power_int_strict_increasing) simp_all
  finally have "\<bar>- min_value\<bar> < 2 powi 1024" using min_value_pos by simp
  moreover have "- min_value = of_int (- 1) * 2 powi (- 1074)"
    by (simp add: min_value_def)
  ultimately show ?thesis
    by (intro round64_exact [of "- min_value" "- 1" "- 1074"]) simp_all
qed

lemma round64_third_min_value: "round64 (- (min_value / 3)) = NegZero"
proof -
  have "min_value / 3 < min_value" using min_value_pos by simp
  also have "min_value < 2 powi (- 1022)" unfolding min_value_def
    by (rule power_int_strict_increasing) simp_all
  finally have q: "quantum (min_value / 3) = - 1074"
    using min_value_pos by (intro quantum_subnormal) simp_all
  have "min_value / 3 / min_value = 1 / 3" using min_value_pos by simp
  then have r: "min_value / 3 / 2 powi (- 1074) = 1 / 3" by (simp only: min_value_def)
  have a: "\<bar>- (min_value / 3)\<bar> = min_value / 3" using min_value_pos by simp
  show ?thesis
    unfolding round64_def Let_def a q r round_half_even_third
    using min_value_pos by simp
qed

lemma round64_19_32: "round64 (19 / 32) = Fin (19 / 32)"
  using round64_exact [of "19 / 32" 19 "- 5"] by (simp add: power_int_minus)

lemma round64_475_8: "round64 (475 / 8) = Fin (475 / 8)"
  using round64_exact [of "475 / 8" 475 "- 3"] by (simp add: power_int_minus)

lemma round64_1243_16: "round64 (1243 / 16) = Fin (1243 / 16)"
  using round64_exact [of "1243 / 16" 1243 "- 4"] by (simp add: power_int_minus)

lemma round64_1307_16: "round64 (1307 / 16) = Fin (1307 / 16)"
  using round64_exact [of "1307 / 16" 1307 "- 4"] by (simp add: power_int_minus)

section \<open>Arithmetic on finite numbers\<close>

lemma js_add_Fin: "js_add (Fin a) (Fin b) = round64 (a + b)"
  by (simp add: js_add_def)

lemma js_sub_Fin: "js_sub (Fin a) (Fin b) = round64 (a - b)"
  by (simp add: js_sub_def js_add_def)

lemma js_mul_Fin: "a \<noteq> 0 \<Longrightarrow> b \<noteq> 0 \<Longrightarrow> js_mul (Fin a) (Fin b) = round64 (a * b)"
  by (simp add: js_mul_def)

lemma js_div_Fin: "a \<noteq> 0 \<Longrightarrow> b \<noteq> 0 \<Longrightarrow> js_div (Fin a) (Fin b) = round64 (a / b)"
  by (simp add: js_div_def)

lemmas js_arith =
  js_add_Fin js_sub_Fin js_mul_Fin js_div_Fin
  round64_zero round64_one round64_numeral round64_numeral_half

lemma foldl_js_add_ints:
  "\<bar>a\<bar> + (\<Sum>z \<leftarrow> zs. \<bar>z\<bar>) < 2 ^ 53 \<Longrightarrow>
     foldl js_add (Fin (of_int a)) (map (\<lambda>z. Fin (of_int z)) zs) = Fin (of_int (a + sum_list zs))"
proof (induction zs arbitrary: a)
  case Nil
  then show ?case by simp
next
  case (Cons z zs)
  have b: "\<bar>a + z\<bar> + (\<Sum>z \<leftarrow> zs. \<bar>z\<bar>) < 2 ^ 53"
    using Cons.prems by simp
  have "0 \<le> (\<Sum>z \<leftarrow> zs. \<bar>z\<bar>)" by (rule sum_list_nonneg) auto
  with b have "\<bar>a + z\<bar> < 2 ^ 53" by linarith
  then have "js_add (Fin (of_int a)) (Fin (of_int z)) = Fin (of_int (a + z))"
    using round64_of_int [of "a + z"] by (simp add: js_add_Fin)
  then show ?case
    using Cons.IH [OF b] by (simp add: add.assoc)
qed

lemma mean_of_ints:
  assumes "(\<Sum>z \<leftarrow> zs. \<bar>z\<bar>) < 2 ^ 53" "zs \<noteq> []"
  shows "js_div (foldl js_add (Fin 0) (map (\<lambda>z. Fin (of_int z)) zs)) (Fin (of_nat (length zs)))
      = round64 (of_int (sum_list zs) / of_nat (length zs))"
proof -
  have "foldl js_add (Fin (of_int 0)) (map (\<lambda>z. Fin (of_int z)) zs)
      = Fin (of_int (0 + sum_list zs))"
    using assms(1) by (intro foldl_js_add_ints) simp
  then have "foldl js_add (Fin 0) (map (\<lambda>z. Fin (of_int z)) zs) = Fin (of_int (sum_list zs))"
    by simp
  then show ?thesis
    using assms(2) by (simp add: js_div_def signed_zero_def round64_zero)
qed

section \<open>The comparator and the sort\<close>

lemma js_gt0_simps [simp]:
  "js_gt0 NaN = False" "js_gt0 NInf = False" "js_gt0 PInf = True" "js_gt0 NegZero = False"
  "js_gt0 (Fin r) = (0 < r)"
  by (simp_all add: js_gt0_def)

lemma round64_sign:
  assumes "round64 a = Fin a" "round64 b = Fin b"
  shows "js_gt0 (round64 (a - b)) \<longleftrightarrow> b < a"
proof -
  from assms obtain za zb where z: "a * 2 ^ 1074 = of_int za" "b * 2 ^ 1074 = of_int zb"
    using is_double_scaled by blast
  then have d: "(a - b) * 2 ^ 1074 = of_int (za - zb)"
    by (simp add: algebra_simps)
  consider "b < a" | "a = b" | "a < b" by linarith
  then show ?thesis
  proof cases
    case 1
    then have "js_gt0 (round64 (a - b))" using d by (intro round64_pos [of _ "za - zb"]) simp_all
    with 1 show ?thesis by simp
  next
    case 2
    then show ?thesis by (simp add: round64_def)
  next
    case 3
    then have "\<not> js_gt0 (round64 (a - b))" by (intro round64_neg) simp
    with 3 show ?thesis by simp
  qed
qed

lemma round64_sign0:
  assumes "round64 a = Fin a"
  shows "js_gt0 (round64 a) \<longleftrightarrow> 0 < a" "js_gt0 (round64 (- a)) \<longleftrightarrow> a < 0"
  using assms round64_sign [of 0 a] by (simp_all add: round64_zero)

lemma js_sub_gt0_iff:
  assumes "x \<noteq> NaN" "y \<noteq> NaN" "is_double x" "is_double y"
  shows "js_gt0 (js_sub x y) \<longleftrightarrow> order_key y < order_key x"
proof (cases x)
  case (Fin a)
  note x = this
  show ?thesis
  proof (cases y)
    case (Fin b)
    with x assms show ?thesis
      using round64_sign [of a b] round64_sign0 [of a]
      by (auto simp: js_sub_def js_add_def)
  next
    case NegZero
    with x assms show ?thesis
      using round64_sign0 [of a] by (auto simp: js_sub_def js_add_def)
  qed (use x assms in \<open>simp_all add: js_sub_def js_add_def\<close>)
next
  case NegZero
  note x = this
  show ?thesis
  proof (cases y)
    case (Fin b)
    with x assms show ?thesis
      using round64_sign0 [of b] by (auto simp: js_sub_def js_add_def)
  qed (use x assms in \<open>simp_all add: js_sub_def js_add_def round64_def\<close>)
qed (use assms in \<open>cases y; simp add: js_sub_def js_add_def\<close>)+

lemma js_lt_order_key:
  "x \<noteq> NaN \<Longrightarrow> y \<noteq> NaN \<Longrightarrow> js_lt x y \<longleftrightarrow> order_key x < order_key y"
  by (cases x; cases y) simp_all

lemma inj_on_order_key:
  "NaN \<notin> A \<Longrightarrow> NegZero \<notin> A \<Longrightarrow> inj_on order_key A"
proof (rule inj_onI)
  fix x y
  assume "NaN \<notin> A" "NegZero \<notin> A" "x \<in> A" "y \<in> A" "order_key x = order_key y"
  then show "x = y" by (cases x; cases y) auto
qed

lemma insort_cmp_key:
  assumes "\<And>y. y \<in> set ys \<Longrightarrow> js_gt0 (cmp x y) \<longleftrightarrow> f y < f x"
  shows "insort_cmp cmp x ys = insort_key f x ys"
  using assms by (induction ys) (auto simp: not_less)

lemma js_sort_key:
  assumes "\<And>x y. x \<in> set xs \<Longrightarrow> y \<in> set xs \<Longrightarrow> js_gt0 (cmp x y) \<longleftrightarrow> f y < f x"
  shows "js_sort cmp xs = sort_key f xs"
  using assms
proof (induction xs)
  case Nil
  then show ?case by (simp add: js_sort_def)
next
  case (Cons x xs)
  then have IH: "foldr (insort_cmp cmp) xs [] = sort_key f xs"
    by (simp add: js_sort_def)
  have "insort_cmp cmp x (sort_key f xs) = insort_key f x (sort_key f xs)"
    using Cons.prems by (intro insort_cmp_key) simp
  then show ?case
    by (simp add: js_sort_def IH sort_key_def)
qed

lemma mset_insort_cmp: "mset (insort_cmp cmp x ys) = add_mset x (mset ys)"
  by (induction ys) simp_all

lemma mset_js_sort: "mset (js_sort cmp xs) = mset xs"
  by (induction xs) (simp_all add: js_sort_def mset_insort_cmp)

lemma length_js_sort: "length (js_sort cmp xs) = length xs"
  using mset_js_sort [of cmp xs] by (metis size_mset)

lemma set_js_sort: "set (js_sort cmp xs) = set xs"
  using mset_js_sort [of cmp xs] by (metis set_mset_mset)

lemma js_sort_doubles:
  "doubles xs \<Longrightarrow> NaN \<notin> set xs \<Longrightarrow>
     js_sort (\<lambda>a b. js_sub a b) xs = sort_key order_key xs"
  by (intro js_sort_key js_sub_gt0_iff) (auto simp: doubles_def)

lemma sort_key_inj_unique:
  assumes "mset xs = mset ys" "inj_on f (set xs)"
  shows "sort_key f xs = sort_key f ys"
proof -
  have s: "set ys = set xs" using assms(1) by (metis set_mset_mset)
  have "map f (sort_key f xs) = sort (map f xs)"
    by (intro properties_for_sort [symmetric]) simp_all
  also have "\<dots> = sort (map f ys)"
    using assms(1) by (intro properties_for_sort) simp_all
  also have "\<dots> = map f (sort_key f ys)"
    by (intro properties_for_sort) simp_all
  finally have "map f (sort_key f xs) = map f (sort_key f ys)" .
  moreover have "inj_on f (set (sort_key f xs) \<union> set (sort_key f ys))"
    using assms(2) s by simp
  ultimately show ?thesis by (simp add: inj_on_map_eq_map)
qed

lemma sorted_js_sort:
  assumes "doubles xs" "NaN \<notin> set xs"
  shows "sorted_wrt (\<lambda>a b. \<not> js_lt b a) (js_sort (\<lambda>a b. js_sub a b) xs)"
proof -
  have "sorted (map order_key (sort_key order_key xs))" by simp
  then have "sorted_wrt (\<lambda>a b. order_key a \<le> order_key b) (sort_key order_key xs)"
    by (simp only: sorted_map)
  moreover have "\<not> js_lt b a"
    if "a \<in> set (sort_key order_key xs)" "b \<in> set (sort_key order_key xs)"
      "order_key a \<le> order_key b" for a b
  proof -
    from that assms(2) have "a \<noteq> NaN" "b \<noteq> NaN" by auto
    then have "js_lt b a \<longleftrightarrow> order_key b < order_key a" by (intro js_lt_order_key)
    with that(3) show ?thesis by (simp add: not_less)
  qed
  ultimately have "sorted_wrt (\<lambda>a b. \<not> js_lt b a) (sort_key order_key xs)"
    by (rule sorted_wrt_mono_rel [rotated]) 
  then show ?thesis using assms by (simp add: js_sort_doubles)
qed

lemma js_sort_permutation:
  assumes "mset xs = mset ys" "doubles xs" "NaN \<notin> set xs" "NegZero \<notin> set xs"
  shows "js_sort (\<lambda>a b. js_sub a b) xs = js_sort (\<lambda>a b. js_sub a b) ys"
proof -
  have s: "set ys = set xs" using assms(1) by (metis set_mset_mset)
  then have "doubles ys" "NaN \<notin> set ys" using assms by (simp_all add: doubles_def)
  moreover have "sort_key order_key xs = sort_key order_key ys"
    using assms by (intro sort_key_inj_unique inj_on_order_key)
  ultimately show ?thesis using assms by (simp add: js_sort_doubles)
qed

lemma sort_underflow:
  "js_sort (\<lambda>a b. js_sub a b) [Fin 5, Fin (- 5), Fin (- min_value)]
     = [Fin (- 5), Fin (- min_value), Fin 5]"
proof -
  have 1: "\<not> js_gt0 (js_sub (Fin (- 5)) (Fin (- min_value)))"
    using round64_sign [of "- 5" "- min_value"] min_value_less
    by (simp add: js_sub_Fin round64_min_value js_arith)
  have 2: "js_gt0 (js_sub (Fin 5) (Fin (- 5)))"
    by (simp add: js_arith)
  have 3: "js_gt0 (js_sub (Fin 5) (Fin (- min_value)))"
    using round64_sign [of 5 "- min_value"] min_value_pos
    by (simp add: js_sub_Fin round64_min_value js_arith)
  show ?thesis
    by (simp add: js_sort_def 1 2 3)
qed

section \<open>Properties of calculateStatistics\<close>

lemma floor_mul_quarter: "floor_mul n (1 / 4) = n div 4"
proof -
  have "\<lfloor>(of_nat n :: rat) / of_nat 4\<rfloor> = int (n div 4)" by (rule floor_divide_of_nat_eq)
  then show ?thesis by (simp add: floor_mul_def)
qed

lemma floor_mul_half: "floor_mul n (1 / 2) = n div 2"
proof -
  have "\<lfloor>(of_nat n :: rat) / of_nat 2\<rfloor> = int (n div 2)" by (rule floor_divide_of_nat_eq)
  then show ?thesis by (simp add: floor_mul_def)
qed

lemma floor_mul_three_quarters: "floor_mul n (3 / 4) = (3 * n) div 4"
proof -
  have "\<lfloor>(of_nat (3 * n) :: rat) / of_nat 4\<rfloor> = int ((3 * n) div 4)"
    by (rule floor_divide_of_nat_eq)
  then show ?thesis by (simp add: floor_mul_def mult.commute)
qed

lemma floor_mul_less:
  assumes "0 < n"
  shows "floor_mul n (1 / 4) < n" "floor_mul n (1 / 2) < n" "floor_mul n (3 / 4) < n"
  using assms by (simp_all add: floor_mul_quarter floor_mul_half floor_mul_three_quarters)

lemma numeric_non_nan_iff: "numeric_non_nan v \<longleftrightarrow> (\<exists>x. v = JNum x \<and> x \<noteq> NaN)"
  by (cases v) simp_all

lemma NaN_notin_numericValues: "NaN \<notin> set (numericValues values)"
  by (auto simp: numericValues_def numeric_non_nan_iff)

lemma mset_numericValues:
  "mset xs = mset ys \<Longrightarrow> mset (numericValues xs) = mset (numericValues ys)"
  by (simp add: numericValues_def)

lemma numericValues_filter: "numericValues (filter numeric_non_nan values) = numericValues values"
  by (simp add: numericValues_def)

lemma calculateStatistics_None_iff:
  "calculateStatistics values = None \<longleftrightarrow> numericValues values = []"
  by (simp add: calculateStatistics_def Let_def)

lemma calculateStatistics_Some:
  assumes "numericValues values \<noteq> []"
  shows "calculateStatistics values =
    Some \<lparr>q1 = js_sort (\<lambda>a b. js_sub a b) (numericValues values)
                 ! floor_mul (length (numericValues values)) (1 / 4),
          q3 = js_sort (\<lambda>a b. js_sub a b) (numericValues values)
                 ! floor_mul (length (numericValues values)) (3 / 4),
          iqr = js_sub
                  (js_sort (\<lambda>a b. js_sub a b) (numericValues values)
                     ! floor_mul (length (numericValues values)) (3 / 4))
                  (js_sort (\<lambda>a b. js_sub a b) (numericValues values)
                     ! floor_mul (length (numericValues values)) (1 / 4)),
          median = js_sort (\<lambda>a b. js_sub a b) (numericValues values)
                     ! floor_mul (length (numericValues values)) (1 / 2),
          mean = js_div (foldl js_add (Fin 0) (numericValues values))
                   (Fin (of_nat (length (numericValues values)))),
          min_stat = js_sort (\<lambda>a b. js_sub a b) (numericValues values) ! 0,
          max_stat = js_sort (\<lambda>a b. js_sub a b) (numericValues values)
                       ! (length (numericValues values) - 1),
          lowerBound = js_sub
             (js_sort (\<lambda>a b. js_sub a b) (numericValues values)
                ! floor_mul (length (numericValues values)) (1 / 4))
             (js_mul (Fin (3 / 2))
                (js_sub
                  (js_sort (\<lambda>a b. js_sub a b) (numericValues values)
                     ! floor_mul (length (numericValues values)) (3 / 4))
                  (js_sort (\<lambda>a b. js_sub a b) (numericValues values)
                     ! floor_mul (length (numericValues values)) (1 / 4)))),
          upperBound = js_add
             (js_sort (\<lambda>a b. js_sub a b) (numericValues values)
                ! floor_mul (length (numericValues values)) (3 / 4))
             (js_mul (Fin (3 / 2))
                (js_sub
                  (js_sort (\<lambda>a b. js_sub a b) (numericValues values)
                     ! floor_mul (length (numericValues values)) (3 / 4))
                  (js_sort (\<lambda>a b. js_sub a b) (numericValues values)
                     ! floor_mul (length (numericValues values)) (1 / 4)))),
          lowerExtreme = js_sub
             (js_sort (\<lambda>a b. js_sub a b) (numericValues values)
                ! floor_mul (length (numericValues values)) (1 / 4))
             (js_mul (Fin 3)
                (js_sub
                  (js_sort (\<lambda>a b. js_sub a b) (numericValues values)
                     ! floor_mul (length (numericValues values)) (3 / 4))
                  (js_sort (\<lambda>a b. js_sub a b) (numericValues values)
                     ! floor_mul (length (numericValues values)) (1 / 4)))),
          upperExtreme = js_add
             (js_sort (\<lambda>a b. js_sub a b) (numericValues values)
                ! floor_mul (length (numericValues values)) (3 / 4))
             (js_mul (Fin 3)
                (js_sub
                  (js_sort (\<lambda>a b. js_sub a b) (numericValues values)
                     ! floor_mul (length (numericValues values)) (3 / 4))
                  (js_sort (\<lambda>a b. js_sub a b) (numericValues values)
                     ! floor_mul (length (numericValues values)) (1 / 4)))),
          count_stat = length (numericValues values)\<rparr>"
  using assms by (simp add: calculateStatistics_def Let_def length_js_sort)

lemma count_calculateStatistics:
  "map_option count_stat (calculateStatistics values) =
     (if numericValues values = [] then None else Some (length (numericValues values)))"
  by (simp add: calculateStatistics_def Let_def length_js_sort)

lemma mean_calculateStatistics:
  "map_option mean (calculateStatistics values) =
     (if numericValues values = [] then None
      else Some (js_div (foldl js_add (Fin 0) (numericValues values))
                   (Fin (of_nat (length (numericValues values))))))"
  by (simp add: calculateStatistics_def Let_def length_js_sort)

lemma calculateStatistics_filter:
  "calculateStatistics (filter numeric_non_nan values) = calculateStatistics values"
  by (simp add: calculateStatistics_def numericValues_filter)

lemma permutation_of_ints:
  assumes "mset (map (\<lambda>z. Fin (of_int z)) zs) = mset nys"
  shows "\<exists>zs'. nys = map (\<lambda>z. Fin (of_int z)) zs' \<and> mset zs' = mset zs"
proof (intro exI conjI)
  let ?F = "\<lambda>z. Fin (rat_of_int z)" and ?G = "\<lambda>x. \<lfloor>val x\<rfloor>"
  have "set nys = set (map ?F zs)" using assms by (metis set_mset_mset)
  then have "?F (?G x) = x" if "x \<in> set nys" for x using that by auto
  then show "nys = map ?F (map ?G nys)" by (simp add: map_idI)
  have "mset nys = image_mset ?F (mset zs)"
    using assms [symmetric] by (simp only: mset_map)
  then have "mset (map ?G nys) = image_mset ?G (image_mset ?F (mset zs))"
    by (simp only: mset_map)
  also have "\<dots> = mset zs" by (simp add: image_mset.compositionality comp_def)
  finally show "mset (map ?G nys) = mset zs" .
qed

lemma mean_permutation_ints:
  assumes "mset xs = mset ys" "numericValues xs = map (\<lambda>z. Fin (of_int z)) zs"
    and "(\<Sum>z \<leftarrow> zs. \<bar>z\<bar>) < 2 ^ 53"
  shows "map_option mean (calculateStatistics ys) = map_option mean (calculateStatistics xs)"
proof -
  have "mset (map (\<lambda>z. Fin (of_int z)) zs) = mset (numericValues ys)"
    using mset_numericValues [OF assms(1)] assms(2) by simp
  then obtain zs' where zs': "numericValues ys = map (\<lambda>z. Fin (of_int z)) zs'" "mset zs' = mset zs"
    using permutation_of_ints by blast
  have sum: "sum_list zs' = sum_list zs"
    using zs'(2) by (metis sum_mset_sum_list)
  have "mset (map abs zs') = mset (map abs zs)" using zs'(2) by simp
  then have abs: "(\<Sum>z \<leftarrow> zs'. \<bar>z\<bar>) = (\<Sum>z \<leftarrow> zs. \<bar>z\<bar>)"
    by (metis sum_mset_sum_list)
  have len: "length zs' = length zs" using zs'(2) by (metis size_mset)
  show ?thesis
  proof (cases "zs = []")
    case True
    with len show ?thesis by (simp add: mean_calculateStatistics assms(2) zs'(1))
  next
    case False
    with len have "zs' \<noteq> []" by auto
    with False show ?thesis
      using mean_of_ints [of zs] mean_of_ints [of zs'] assms(3) abs
      by (simp add: mean_calculateStatistics assms(2) zs'(1) sum len)
  qed
qed

lemma stats_example:
  "calculateStatistics [JNum (Fin 15), JNum (Fin 16), JNum (Fin 96), JNum (Fin 17), JNum (Fin 16)]
   = Some \<lparr>q1 = Fin 16, q3 = Fin 17, iqr = Fin 1, median = Fin 16, mean = Fin 32,
           min_stat = Fin 15, max_stat = Fin 96, lowerBound = Fin (29 / 2),
           upperBound = Fin (37 / 2), lowerExtreme = Fin 13, upperExtreme = Fin 20,
           count_stat = 5\<rparr>"
  by (simp add: calculateStatistics_def numericValues_def js_sort_def Let_def
      floor_mul_quarter floor_mul_half floor_mul_three_quarters js_arith)

lemma stats_scenario_A:
  "calculateStatistics [JNum (Fin 10), JNum (Fin 12), JNum (Fin 11), JNum (Fin 13), JNum (Fin 100)]
   = Some \<lparr>q1 = Fin 11, q3 = Fin 13, iqr = Fin 2, median = Fin 12,
           mean = Fin (8219069319951155 / 281474976710656),
           min_stat = Fin 10, max_stat = Fin 100, lowerBound = Fin 8, upperBound = Fin 16,
           lowerExtreme = Fin 5, upperExtreme = Fin 19, count_stat = 5\<rparr>"
  by (simp add: calculateStatistics_def numericValues_def js_sort_def Let_def
      floor_mul_quarter floor_mul_half floor_mul_three_quarters js_arith round64_146_5)

lemma sort_scenario_A:
  "js_sort (\<lambda>a b. js_sub a b) [Fin 10, Fin 12, Fin 11, Fin 13, Fin 100]
     = [Fin 10, Fin 11, Fin 12, Fin 13, Fin 100]"
  by (simp add: js_sort_def js_arith)

text \<open>
  The comparator finds the two zeros equal and the sort is stable, so they stay in
  the order of the input: a permutation can change the sign of a zero quartile.
\<close>

lemma stats_negative_zero_order:
  "map_option q1 (calculateStatistics [JNum (Fin 0), JNum NegZero]) = Some (Fin 0)"
  "map_option q1 (calculateStatistics [JNum NegZero, JNum (Fin 0)]) = Some NegZero"
  by (simp_all add: calculateStatistics_def numericValues_def Let_def js_sort_def
      floor_mul_quarter js_sub_def js_add_def round64_zero)

text \<open>A mean that underflows to negative zero.\<close>

lemma stats_underflow:
  "calculateStatistics [JNum (Fin 5), JNum (Fin (- 5)), JNum (Fin (- min_value))]
     = Some underflow_stats"
  using min_value_pos
  by (simp add: calculateStatistics_def numericValues_def Let_def sort_underflow
      floor_mul_quarter floor_mul_half floor_mul_three_quarters js_arith
      round64_min_value round64_third_min_value underflow_stats_def)

section \<open>Properties of analyzeDataset\<close>

lemma filter_err_total: "(\<And>x. p x = Inr (q x)) \<Longrightarrow> filter_err p xs = Inr (filter q xs)"
  by (induction xs) simp_all

lemma forEach_err_total:
  "(\<And>x s. f x s = Inr (g x s)) \<Longrightarrow> forEach_err f xs s = Inr (fold g xs s)"
  by (induction xs arbitrary: s) simp_all

lemma fold_pair:
  "fold (\<lambda>c (a, b). (f c a, g c b)) xs (a0, b0) = (fold f xs a0, fold g xs b0)"
  by (induction xs arbitrary: a0 b0) simp_all

lemma fold_count:
  "fold (\<lambda>x (cnt :: nat). if P x then cnt + 1 else cnt) xs k = k + length (filter P xs)"
  by (induction xs arbitrary: k) simp_all

lemma foldl_plus_sum_list: "foldl (+) (k :: nat) xs = k + sum_list xs"
  by (induction xs arbitrary: k) simp_all

lemma analyzeDataset_arrays:
  "analyzeDataset (Array rows) (Array cols) =
     Inr \<lparr>columnStats =
            fold (\<lambda>c. js_assign c (column_stats rows c)) (filter (numeric_column rows) cols) [],
          anomalyCounts =
            fold (\<lambda>c. js_assign c (column_count rows c)) (filter (numeric_column rows) cols) [],
          numericColumns = filter (numeric_column rows) cols,
          totalAnomalies =
            sum_list (map snd
              (fold (\<lambda>c. js_assign c (column_count rows c))
                 (filter (numeric_column rows) cols) []))\<rparr>"
proof -
  have 1: "filter_err (\<lambda>col. Inr (list_ex numeric_non_nan (map (\<lambda>row. row col) rows))) cols
      = Inr (filter (numeric_column rows) cols)"
    by (simp add: filter_err_total numeric_column_def [abs_def])
  have 2: "forEach_err
        (\<lambda>col (cs, ac). Inr (js_assign col (column_stats rows col) cs,
                             js_assign col (column_count rows col) ac)) ks s
      = Inr (fold (\<lambda>c (cs, ac). (js_assign c (column_stats rows c) cs,
                                    js_assign c (column_count rows c) ac)) ks s)" for ks s
    by (rule forEach_err_total) (simp add: split_def)
  show ?thesis
    by (simp add: analyzeDataset_def 1 fold_count Let_def 2 fold_pair foldl_plus_sum_list
        flip: column_stats_def column_count_def)
qed

lemma fold_js_assign:
  "fold (\<lambda>c. js_assign c (f c)) ks al
     = fold (\<lambda>c. AList.update c (f c)) (filter (\<lambda>c. c \<noteq> ''__proto__'') ks) al"
  by (induction ks arbitrary: al) (simp_all add: js_assign_def)

lemma analyzeDataset_fields:
  assumes "analyzeDataset (Array rows) (Array cols) = Inr r"
  shows "columnStats r
      = fold (\<lambda>c. AList.update c (column_stats rows c))
          (filter (\<lambda>c. c \<noteq> ''__proto__'') (filter (numeric_column rows) cols)) []"
    and "anomalyCounts r
      = fold (\<lambda>c. AList.update c (column_count rows c))
          (filter (\<lambda>c. c \<noteq> ''__proto__'') (filter (numeric_column rows) cols)) []"
    and "numericColumns r = filter (numeric_column rows) cols"
    and "totalAnomalies r = sum_list (map snd (anomalyCounts r))"
  using assms by (auto simp: analyzeDataset_arrays fold_js_assign)

lemma map_of_fold_update:
  "map_of (fold (\<lambda>c. AList.update c (f c)) ks al) k
     = (if k \<in> set ks then Some (f k) else map_of al k)"
  by (induction ks arbitrary: al) (simp_all add: update_conv')

lemma keys_fold_update:
  "fst ` set (fold (\<lambda>c. AList.update c (f c)) ks al) = set ks \<union> fst ` set al"
  by (induction ks arbitrary: al) (auto simp: dom_update)

lemma distinct_fold_update:
  "distinct (map fst al) \<Longrightarrow> distinct (map fst (fold (\<lambda>c. AList.update c (f c)) ks al))"
  by (induction ks arbitrary: al) (simp_all add: distinct_update)

lemma sum_list_alist:
  "distinct (map fst al) \<Longrightarrow>
     sum_list (map snd al) = (\<Sum>k \<in> fst ` set al. the (map_of al k) :: nat)"
proof (induction al)
  case Nil
  then show ?case by simp
next
  case (Cons p al)
  obtain k v where p: "p = (k, v)" by (cases p)
  from Cons.prems have k: "k \<notin> fst ` set al" and d: "distinct (map fst al)"
    by (simp_all add: p)
  have "(\<Sum>j \<in> fst ` set (p # al). the (map_of (p # al) j))
      = v + (\<Sum>j \<in> fst ` set al. the (map_of (p # al) j))"
    using k by (simp add: p)
  also have "(\<Sum>j \<in> fst ` set al. the (map_of (p # al) j)) = (\<Sum>j \<in> fst ` set al. the (map_of al j))"
    using k by (intro sum.cong) (auto simp: p)
  finally show ?case using Cons.IH [OF d] by (simp add: p)
qed

lemma filter_removeAll_irrelevant: "\<not> P c \<Longrightarrow> filter P (removeAll c xs) = filter P xs"
  by (induction xs) auto

lemma analyzeDataset_total: "\<exists>r. analyzeDataset (Array rows) (Array cols) = Inr r"
  by (simp add: analyzeDataset_arrays)

lemma analyzeDataset_no_rows: "analyzeDataset (Array []) (Array cols) = Inr empty_analysis"
  by (simp add: analyzeDataset_arrays numeric_column_def empty_analysis_def)

lemma analyzeDataset_no_columns: "analyzeDataset data (Array []) = Inr empty_analysis"
  by (simp add: analyzeDataset_def empty_analysis_def)

lemma analyzeDataset_columns_not_array:
  "(\<forall>cols. columns \<noteq> Array cols) \<Longrightarrow> analyzeDataset data columns = Inl TypeError"
  by (cases columns) (simp_all add: analyzeDataset_def)

lemma analyzeDataset_data_not_array:
  "(\<forall>rows. data \<noteq> Array rows) \<Longrightarrow> cols \<noteq> [] \<Longrightarrow>
     analyzeDataset data (Array cols) = Inl TypeError"
  by (cases data; cases cols) (simp_all add: analyzeDataset_def)

lemma analyzeDataset_Inr_cases:
  assumes "analyzeDataset data columns = Inr r"
  shows "(\<exists>rows cols. data = Array rows \<and> columns = Array cols)
         \<or> (columns = Array [] \<and> r = empty_analysis)"
proof (cases columns)
  case (Array cols)
  show ?thesis
  proof (cases "cols = []")
    case True
    with Array assms show ?thesis by (simp add: analyzeDataset_no_columns)
  next
    case False
    with Array assms show ?thesis
      using analyzeDataset_data_not_array [of data cols] by auto
  qed
qed (use assms in \<open>simp_all add: analyzeDataset_def\<close>)

lemma numeric_column_iff:
  "numeric_column rows c \<longleftrightarrow> (\<exists>row \<in> set rows. \<exists>x. row c = JNum x \<and> x \<noteq> NaN)"
  by (auto simp: numeric_column_def list_ex_iff numeric_non_nan_iff)

lemma column_stats_count:
  assumes "numeric_column rows c"
  shows "\<exists>s. column_stats rows c = Some s \<and> 1 \<le> count_stat s"
proof -
  from assms have ne: "numericValues (map (\<lambda>row. row c) rows) \<noteq> []"
    by (auto simp: numeric_column_def list_ex_iff numericValues_def filter_empty_conv)
  then have "Suc 0 \<le> length (numericValues (map (\<lambda>row. row c) rows))"
    by (simp add: Suc_le_eq)
  with ne show ?thesis
    using count_calculateStatistics [of "map (\<lambda>row. row c) rows"]
    by (cases "calculateStatistics (map (\<lambda>row. row c) rows)")
      (auto simp: column_stats_def)
qed

lemma analyzeDataset_example:
  "analyzeDataset (Array example_rows) (Array [''name'', ''temp'']) = Inr example_analysis"
  by (simp add: analyzeDataset_arrays numeric_column_def column_stats_def column_count_def
      example_rows_def example_analysis_def stats_example detectAnomaly_def js_gt_def
      js_assign_def)

section \<open>Properties of the tooltip\<close>

lemma js_div_abs_zero: "js_div (js_abs y) (Fin 0) \<in> {PInf, NaN}"
  by (cases y) (simp_all add: js_div_def signed_inf_def)

lemma js_div_abs_negzero: "js_div (js_abs y) NegZero \<in> {NInf, NaN}"
  by (cases y) (simp_all add: js_div_def signed_inf_def)

lemma percent_zero_mean:
  "mean s = Fin 0 \<Longrightarrow> percent s v \<in> {PInf, NaN}"
  "mean s = NegZero \<Longrightarrow> percent s v \<in> {NInf, NaN}"
  using js_div_abs_zero [of "js_sub v (Fin 0)"] js_div_abs_negzero [of "js_sub v NegZero"]
  by (auto simp: percent_def js_mul_def signed_inf_def)

lemma fixed_digits_200: "fixed_digits 200 (Suc 0) = ''200.0''"
  by code_simp

lemma fixed_digits_155_half: "fixed_digits (155 / 2) 2 = ''77.50''"
  by code_simp

lemma fixed_digits_5: "fixed_digits 5 2 = ''5.00''"
  by code_simp

lemma fixed_digits_30: "fixed_digits 30 2 = ''30.00''"
  by code_simp

lemma fixed_digits_100: "fixed_digits 100 (Suc 0) = ''100.0''"
  by code_simp

lemma fixed_digits_29_half: "fixed_digits (29 / 2) 2 = ''14.50''"
  by code_simp

lemma fixed_digits_37_half: "fixed_digits (37 / 2) 2 = ''18.50''"
  by code_simp

lemma fixed_digits_163_half: "fixed_digits (163 / 2) 2 = ''81.50''"
  by code_simp

lemma fixed_digits_475_8: "fixed_digits (475 / 8) (Suc 0) = ''59.4''"
  by code_simp

lemma fixed_digits_minus_100: "fixed_digits (- 100) (Suc 0) = ''-100.0''"
  by code_simp

lemma fixed_digits_1243_16: "fixed_digits (1243 / 16) 2 = ''77.69''"
  by code_simp

lemma fixed_digits_1307_16: "fixed_digits (1307 / 16) 2 = ''81.69''"
  by code_simp

section \<open>Claims about calculateStatistics\<close>

text \<open>
  Claim C2, as the code has it. \<open>calculateStatistics\<close> computes over exactly the elements
  that pass \<^verbatim>\<open>typeof v === 'number' && !isNaN(v)\<close>, the numbers other than \<open>NaN\<close>: the
  result is that of the filtered sequence. It is \<^verbatim>\<open>null\<close> exactly when no element passes,
  and otherwise \<^verbatim>\<open>count\<close> is the number of elements that pass. For
  \<^verbatim>\<open>[5, "x", null, NaN, 10]\<close> the statistics are those of \<^verbatim>\<open>[5, 10]\<close> and the count is 2.
\<close>

theorem calculateStatistics_filtering:
  "map_option count_stat (calculateStatistics values) =
     (if filter numeric_non_nan values = [] then None
      else Some (length (filter numeric_non_nan values)))
   \<and> (calculateStatistics values = None \<longleftrightarrow> filter numeric_non_nan values = [])
   \<and> calculateStatistics values = calculateStatistics (filter numeric_non_nan values)
   \<and> (numeric_non_nan v \<longleftrightarrow> (\<exists>x. v = JNum x \<and> x \<noteq> NaN))
   \<and> filter numeric_non_nan [JNum (Fin 5), JStr ''x'', JNull, JNum NaN, JNum (Fin 10)]
       = [JNum (Fin 5), JNum (Fin 10)]
   \<and> calculateStatistics [JNum (Fin 5), JStr ''x'', JNull, JNum NaN, JNum (Fin 10)]
       = calculateStatistics [JNum (Fin 5), JNum (Fin 10)]
   \<and> map_option count_stat
         (calculateStatistics [JNum (Fin 5), JStr ''x'', JNull, JNum NaN, JNum (Fin 10)])
       = Some 2"
proof (intro conjI)
  show "map_option count_stat (calculateStatistics values) =
     (if filter numeric_non_nan values = [] then None
      else Some (length (filter numeric_non_nan values)))"
    by (simp add: count_calculateStatistics numericValues_def)
  show "calculateStatistics values = None \<longleftrightarrow> filter numeric_non_nan values = []"
    by (simp add: calculateStatistics_None_iff numericValues_def)
  show "calculateStatistics values = calculateStatistics (filter numeric_non_nan values)"
    by (simp add: calculateStatistics_filter)
  show "numeric_non_nan v \<longleftrightarrow> (\<exists>x. v = JNum x \<and> x \<noteq> NaN)"
    by (rule numeric_non_nan_iff)
  show "filter numeric_non_nan [JNum (Fin 5), JStr ''x'', JNull, JNum NaN, JNum (Fin 10)]
       = [JNum (Fin 5), JNum (Fin 10)]"
    by simp
  show "calculateStatistics [JNum (Fin 5), JStr ''x'', JNull, JNum NaN, JNum (Fin 10)]
       = calculateStatistics [JNum (Fin 5), JNum (Fin 10)]"
    using calculateStatistics_filter
      [of "[JNum (Fin 5), JStr ''x'', JNull, JNum NaN, JNum (Fin 10)]"]
    by simp
  show "map_option count_stat
         (calculateStatistics [JNum (Fin 5), JStr ''x'', JNull, JNum NaN, JNum (Fin 10)])
       = Some 2"
    by (simp add: count_calculateStatistics numericValues_def)
qed

text \<open>
  Claim C2 as stated excludes the numbers that are not finite. The filter keeps an
  infinity: for \<^verbatim>\<open>[Infinity]\<close> the result is not \<^verbatim>\<open>null\<close> and its count is 1.
\<close>

theorem calculateStatistics_infinity_counterexample:
  "\<not> spec_finite_number (JNum PInf)
   \<and> map_option count_stat (calculateStatistics [JNum PInf]) = Some 1"
  by (simp add: count_calculateStatistics numericValues_def)

text \<open>
  Claim C4, as the code has it. For a non-empty filtered sequence \<open>nvs\<close> of \<open>n\<close> numbers
  and its sorted copy, \<open>calculateStatistics\<close> returns \<open>q1\<close>, \<open>median\<close> and \<open>q3\<close> as the
  elements at the positions \<open>floor (n * 0.25)\<close>, \<open>floor (n * 0.5)\<close> and \<open>floor (n * 0.75)\<close>,
  all within range; \<open>iqr = q3 - q1\<close>; the fences \<open>q1 - 1.5 * iqr\<close>, \<open>q3 + 1.5 * iqr\<close>,
  \<open>q1 - 3 * iqr\<close> and \<open>q3 + 3 * iqr\<close>; the mean as the binary64 sum of \<open>nvs\<close> from left to
  right, starting from 0, divided by \<open>n\<close>, which for integers whose absolute values sum to
  less than \<open>2 ^ 53\<close> is the arithmetic mean rounded once; the first and the last element
  as minimum and maximum. The sorted copy is a permutation of \<open>nvs\<close>, and it ascends when
  the numbers are binary64 values. For \<^verbatim>\<open>[10, 12, 11, 13, 100]\<close>: \<open>q1 = 11\<close>, \<open>median = 12\<close>,
  \<open>q3 = 13\<close>, \<open>iqr = 2\<close>, mild fences 8 and 16, extreme fences 5 and 19, and the value 100
  is an extreme high anomaly.
\<close>

theorem calculateStatistics_formulas:
  assumes "nvs = numericValues values" and "nvs \<noteq> []"
    and "sorted' = js_sort (\<lambda>a b. js_sub a b) nvs" and "n = length nvs"
  shows "(\<exists>s. calculateStatistics values = Some s
      \<and> q1 s = sorted' ! nat \<lfloor>rat_of_nat n * (1 / 4)\<rfloor> \<and> nat \<lfloor>rat_of_nat n * (1 / 4)\<rfloor> < n
      \<and> median s = sorted' ! nat \<lfloor>rat_of_nat n * (1 / 2)\<rfloor> \<and> nat \<lfloor>rat_of_nat n * (1 / 2)\<rfloor> < n
      \<and> q3 s = sorted' ! nat \<lfloor>rat_of_nat n * (3 / 4)\<rfloor> \<and> nat \<lfloor>rat_of_nat n * (3 / 4)\<rfloor> < n
      \<and> iqr s = js_sub (q3 s) (q1 s)
      \<and> lowerBound s = js_sub (q1 s) (js_mul (Fin (3 / 2)) (iqr s))
      \<and> upperBound s = js_add (q3 s) (js_mul (Fin (3 / 2)) (iqr s))
      \<and> lowerExtreme s = js_sub (q1 s) (js_mul (Fin 3) (iqr s))
      \<and> upperExtreme s = js_add (q3 s) (js_mul (Fin 3) (iqr s))
      \<and> mean s = js_div (foldl js_add (Fin 0) nvs) (Fin (of_nat n))
      \<and> (\<forall>zs. nvs = map (\<lambda>z. Fin (of_int z)) zs \<and> (\<Sum>z \<leftarrow> zs. \<bar>z\<bar>) < 2 ^ 53 \<longrightarrow>
            mean s = round64 (of_int (sum_list zs) / of_nat n))
      \<and> min_stat s = sorted' ! 0
      \<and> max_stat s = sorted' ! (n - 1)
      \<and> count_stat s = n
      \<and> length sorted' = n
      \<and> mset sorted' = mset nvs
      \<and> (doubles nvs \<longrightarrow> sorted_wrt (\<lambda>a b. \<not> js_lt b a) sorted'))
    \<and> calculateStatistics
          [JNum (Fin 10), JNum (Fin 12), JNum (Fin 11), JNum (Fin 13), JNum (Fin 100)]
        = Some \<lparr>q1 = Fin 11, q3 = Fin 13, iqr = Fin 2, median = Fin 12,
                mean = Fin (8219069319951155 / 281474976710656),
                min_stat = Fin 10, max_stat = Fin 100, lowerBound = Fin 8, upperBound = Fin 16,
                lowerExtreme = Fin 5, upperExtreme = Fin 19, count_stat = 5\<rparr>
    \<and> detectAnomaly (JNum (Fin 100))
          (calculateStatistics
             [JNum (Fin 10), JNum (Fin 12), JNum (Fin 11), JNum (Fin 13), JNum (Fin 100)])
        = \<lparr>isAnomaly = True, type = Some ''high'', severity = Some ''extreme''\<rparr>"
proof (intro conjI)
  have ne: "numericValues values \<noteq> []" using assms by simp
  have npos: "0 < n" using assms by simp
  note idx = floor_mul_less [OF npos, unfolded floor_mul_def]
  have m: "js_div (foldl js_add (Fin 0) nvs) (Fin (of_nat n))
      = round64 (of_int (sum_list zs) / of_nat n)"
    if "nvs = map (\<lambda>z. Fin (of_int z)) zs \<and> (\<Sum>z \<leftarrow> zs. \<bar>z\<bar>) < 2 ^ 53" for zs
  proof -
    from that assms have "zs \<noteq> []" "n = length zs" by auto
    with that show ?thesis using mean_of_ints [of zs] by simp
  qed
  have ls: "length sorted' = n" "mset sorted' = mset nvs"
    using assms by (simp_all add: length_js_sort mset_js_sort)
  have srt: "sorted_wrt (\<lambda>a b. \<not> js_lt b a) sorted'" if "doubles nvs"
    using that assms by (simp add: sorted_js_sort NaN_notin_numericValues)
  show "\<exists>s. calculateStatistics values = Some s
      \<and> q1 s = sorted' ! nat \<lfloor>rat_of_nat n * (1 / 4)\<rfloor> \<and> nat \<lfloor>rat_of_nat n * (1 / 4)\<rfloor> < n
      \<and> median s = sorted' ! nat \<lfloor>rat_of_nat n * (1 / 2)\<rfloor> \<and> nat \<lfloor>rat_of_nat n * (1 / 2)\<rfloor> < n
      \<and> q3 s = sorted' ! nat \<lfloor>rat_of_nat n * (3 / 4)\<rfloor> \<and> nat \<lfloor>rat_of_nat n * (3 / 4)\<rfloor> < n
      \<and> iqr s = js_sub (q3 s) (q1 s)
      \<and> lowerBound s = js_sub (q1 s) (js_mul (Fin (3 / 2)) (iqr s))
      \<and> upperBound s = js_add (q3 s) (js_mul (Fin (3 / 2)) (iqr s))
      \<and> lowerExtreme s = js_sub (q1 s) (js_mul (Fin 3) (iqr s))
      \<and> upperExtreme s = js_add (q3 s) (js_mul (Fin 3) (iqr s))
      \<and> mean s = js_div (foldl js_add (Fin 0) nvs) (Fin (of_nat n))
      \<and> (\<forall>zs. nvs = map (\<lambda>z. Fin (of_int z)) zs \<and> (\<Sum>z \<leftarrow> zs. \<bar>z\<bar>) < 2 ^ 53 \<longrightarrow>
            mean s = round64 (of_int (sum_list zs) / of_nat n))
      \<and> min_stat s = sorted' ! 0
      \<and> max_stat s = sorted' ! (n - 1)
      \<and> count_stat s = n
      \<and> length sorted' = n
      \<and> mset sorted' = mset nvs
      \<and> (doubles nvs \<longrightarrow> sorted_wrt (\<lambda>a b. \<not> js_lt b a) sorted')"
    using idx m srt ls
    by (simp add: calculateStatistics_Some [OF ne] assms(1,3,4) [symmetric] floor_mul_def)
  show "calculateStatistics
          [JNum (Fin 10), JNum (Fin 12), JNum (Fin 11), JNum (Fin 13), JNum (Fin 100)]
        = Some \<lparr>q1 = Fin 11, q3 = Fin 13, iqr = Fin 2, median = Fin 12,
                mean = Fin (8219069319951155 / 281474976710656),
                min_stat = Fin 10, max_stat = Fin 100, lowerBound = Fin 8, upperBound = Fin 16,
                lowerExtreme = Fin 5, upperExtreme = Fin 19, count_stat = 5\<rparr>"
    by (rule stats_scenario_A)
  show "detectAnomaly (JNum (Fin 100))
          (calculateStatistics
             [JNum (Fin 10), JNum (Fin 12), JNum (Fin 11), JNum (Fin 13), JNum (Fin 100)])
        = \<lparr>isAnomaly = True, type = Some ''high'', severity = Some ''extreme''\<rparr>"
    by (simp add: stats_scenario_A detectAnomaly_def js_gt_def)
qed

text \<open>
  Claim C4 as stated fails for the mean: every addition of the sum rounds, so the result
  need not be the arithmetic mean, nor the binary64 value nearest to it. The binary64
  values \<^verbatim>\<open>[2^53, 1, 1, -2^53]\<close> have the arithmetic mean 0.5, itself a binary64 value, and
  the code returns the mean 0.
\<close>

theorem calculateStatistics_mean_counterexample:
  "numericValues
       [JNum (Fin 9007199254740992), JNum (Fin 1), JNum (Fin 1), JNum (Fin (- 9007199254740992))]
     = map Fin [9007199254740992, 1, 1, - 9007199254740992]
   \<and> doubles (map Fin [9007199254740992, 1, 1, - 9007199254740992])
   \<and> spec_arithmetic_mean [9007199254740992, 1, 1, - 9007199254740992] = 1 / 2
   \<and> is_double (Fin (1 / 2))
   \<and> map_option mean (calculateStatistics
         [JNum (Fin 9007199254740992), JNum (Fin 1), JNum (Fin 1), JNum (Fin (- 9007199254740992))])
       = Some (Fin 0)"
  by (simp add: mean_calculateStatistics numericValues_def js_arith js_div_def signed_zero_def
      round64_2p53 round64_2p53_1 round64_2p53_2 round64_half spec_arithmetic_mean_def doubles_def)

theorem calculateStatistics_formulas_witness:
  "numericValues [JNum (Fin 10), JNum (Fin 12), JNum (Fin 11), JNum (Fin 13), JNum (Fin 100)]
     = [Fin 10, Fin 12, Fin 11, Fin 13, Fin 100]
   \<and> doubles [Fin 10, Fin 12, Fin 11, Fin 13, Fin 100]
   \<and> (\<exists>s. calculateStatistics
              [JNum (Fin 10), JNum (Fin 12), JNum (Fin 11), JNum (Fin 13), JNum (Fin 100)]
            = Some s
        \<and> q1 s = [Fin 10, Fin 11, Fin 12, Fin 13, Fin 100] ! 1
        \<and> median s = [Fin 10, Fin 11, Fin 12, Fin 13, Fin 100] ! 2
        \<and> q3 s = [Fin 10, Fin 11, Fin 12, Fin 13, Fin 100] ! 3
        \<and> mean s = round64 (146 / 5))
   \<and> sorted_wrt (\<lambda>a b. \<not> js_lt b a) [Fin 10, Fin 11, Fin 12, Fin 13, Fin 100]"
proof -
  have nv: "[Fin 10, Fin 12, Fin 11, Fin 13, Fin 100]
      = numericValues [JNum (Fin 10), JNum (Fin 12), JNum (Fin 11), JNum (Fin 13), JNum (Fin 100)]"
    by (simp add: numericValues_def)
  have ints: "[Fin 10, Fin 12, Fin 11, Fin 13, Fin 100]
      = map (\<lambda>z. Fin (of_int z)) [10, 12, 11, 13, 100]"
    by simp
  have d: "doubles [Fin 10, Fin 12, Fin 11, Fin 13, Fin 100]"
    by (simp add: doubles_def js_arith)
  from calculateStatistics_formulas
    [OF nv _ sort_scenario_A [symmetric], of 5]
  obtain s where s: "calculateStatistics
        [JNum (Fin 10), JNum (Fin 12), JNum (Fin 11), JNum (Fin 13), JNum (Fin 100)] = Some s"
      "q1 s = [Fin 10, Fin 11, Fin 12, Fin 13, Fin 100] ! nat \<lfloor>rat_of_nat 5 * (1 / 4)\<rfloor>"
      "median s = [Fin 10, Fin 11, Fin 12, Fin 13, Fin 100] ! nat \<lfloor>rat_of_nat 5 * (1 / 2)\<rfloor>"
      "q3 s = [Fin 10, Fin 11, Fin 12, Fin 13, Fin 100] ! nat \<lfloor>rat_of_nat 5 * (3 / 4)\<rfloor>"
      "\<forall>zs. [Fin 10, Fin 12, Fin 11, Fin 13, Fin 100] = map (\<lambda>z. Fin (of_int z)) zs
            \<and> (\<Sum>z \<leftarrow> zs. \<bar>z\<bar>) < 2 ^ 53 \<longrightarrow>
            mean s = round64 (of_int (sum_list zs) / of_nat 5)"
      "doubles [Fin 10, Fin 12, Fin 11, Fin 13, Fin 100] \<longrightarrow>
         sorted_wrt (\<lambda>a b. \<not> js_lt b a) [Fin 10, Fin 11, Fin 12, Fin 13, Fin 100]"
    by auto
  have small: "(\<Sum>z \<leftarrow> [10, 12, 11, 13, 100 :: int]. \<bar>z\<bar>) < 2 ^ 53" by simp
  from s(5) have "[Fin 10, Fin 12, Fin 11, Fin 13, Fin 100]
        = map (\<lambda>z. Fin (of_int z)) [10, 12, 11, 13, 100]
      \<and> (\<Sum>z \<leftarrow> [10, 12, 11, 13, 100 :: int]. \<bar>z\<bar>) < 2 ^ 53 \<longrightarrow>
      mean s = round64 (of_int (sum_list [10, 12, 11, 13, 100]) / of_nat 5)"
    by (rule spec)
  then have "mean s = round64 (of_int (sum_list [10, 12, 11, 13, 100]) / of_nat 5)"
    by simp
  then have "mean s = round64 (146 / 5)" by simp
  moreover have "nat \<lfloor>5 / 4 :: rat\<rfloor> = 1" "nat \<lfloor>5 / 2 :: rat\<rfloor> = 2"
      "nat \<lfloor>15 / 4 :: rat\<rfloor> = 3"
    using floor_mul_quarter [of 5] floor_mul_half [of 5] floor_mul_three_quarters [of 5]
    by (simp_all add: floor_mul_def)
  ultimately show ?thesis using s(1-4,6) d nv by simp
qed

text \<open>
  Claim C7, as the code has it. \<open>calculateStatistics\<close> is a function of its argument
  alone. For a permutation of an input whose numbers are binary64 values other than
  negative zero, every field but the mean is the same, since the sort is internal. The
  mean is the sum of the filtered values from left to right, in the order of the input,
  divided by their number; it is the same for both orders when the values are integers
  whose absolute values sum to less than \<open>2 ^ 53\<close>, and then the whole result is the same.
\<close>

theorem calculateStatistics_permutation:
  assumes "mset xs = mset ys"
    and "doubles (numericValues xs)" and "NegZero \<notin> set (numericValues xs)"
  shows "map_option q1 (calculateStatistics ys) = map_option q1 (calculateStatistics xs)
     \<and> map_option q3 (calculateStatistics ys) = map_option q3 (calculateStatistics xs)
     \<and> map_option iqr (calculateStatistics ys) = map_option iqr (calculateStatistics xs)
     \<and> map_option median (calculateStatistics ys) = map_option median (calculateStatistics xs)
     \<and> map_option min_stat (calculateStatistics ys) = map_option min_stat (calculateStatistics xs)
     \<and> map_option max_stat (calculateStatistics ys) = map_option max_stat (calculateStatistics xs)
     \<and> map_option lowerBound (calculateStatistics ys)
         = map_option lowerBound (calculateStatistics xs)
     \<and> map_option upperBound (calculateStatistics ys)
         = map_option upperBound (calculateStatistics xs)
     \<and> map_option lowerExtreme (calculateStatistics ys)
         = map_option lowerExtreme (calculateStatistics xs)
     \<and> map_option upperExtreme (calculateStatistics ys)
         = map_option upperExtreme (calculateStatistics xs)
     \<and> map_option count_stat (calculateStatistics ys)
         = map_option count_stat (calculateStatistics xs)
     \<and> map_option mean (calculateStatistics xs)
         = (if numericValues xs = [] then None
            else Some (js_div (foldl js_add (Fin 0) (numericValues xs))
                         (Fin (of_nat (length (numericValues xs))))))
     \<and> map_option mean (calculateStatistics ys)
         = (if numericValues ys = [] then None
            else Some (js_div (foldl js_add (Fin 0) (numericValues ys))
                         (Fin (of_nat (length (numericValues ys))))))
     \<and> (\<forall>zs. numericValues xs = map (\<lambda>z. Fin (of_int z)) zs
              \<and> (\<Sum>z \<leftarrow> zs. \<bar>z\<bar>) < 2 ^ 53 \<longrightarrow>
            calculateStatistics ys = calculateStatistics xs)"
proof -
  have ints: "calculateStatistics ys = calculateStatistics xs"
    if f: "map_option q1 (calculateStatistics ys) = map_option q1 (calculateStatistics xs)"
      "map_option q3 (calculateStatistics ys) = map_option q3 (calculateStatistics xs)"
      "map_option iqr (calculateStatistics ys) = map_option iqr (calculateStatistics xs)"
      "map_option median (calculateStatistics ys) = map_option median (calculateStatistics xs)"
      "map_option min_stat (calculateStatistics ys) = map_option min_stat (calculateStatistics xs)"
      "map_option max_stat (calculateStatistics ys) = map_option max_stat (calculateStatistics xs)"
      "map_option lowerBound (calculateStatistics ys)
         = map_option lowerBound (calculateStatistics xs)"
      "map_option upperBound (calculateStatistics ys)
         = map_option upperBound (calculateStatistics xs)"
      "map_option lowerExtreme (calculateStatistics ys)
         = map_option lowerExtreme (calculateStatistics xs)"
      "map_option upperExtreme (calculateStatistics ys)
         = map_option upperExtreme (calculateStatistics xs)"
      "map_option count_stat (calculateStatistics ys)
         = map_option count_stat (calculateStatistics xs)"
    and z: "numericValues xs = map (\<lambda>z. Fin (of_int z)) zs
              \<and> (\<Sum>z \<leftarrow> zs. \<bar>z\<bar>) < 2 ^ 53" for zs
  proof -
    have "map_option mean (calculateStatistics ys) = map_option mean (calculateStatistics xs)"
      using assms(1) z by (intro mean_permutation_ints [of xs ys zs]) simp_all
    with f show ?thesis
      by (cases "calculateStatistics ys"; cases "calculateStatistics xs") simp_all
  qed
  have m: "mset (numericValues xs) = mset (numericValues ys)"
    using assms(1) by (rule mset_numericValues)
  then have len: "length (numericValues ys) = length (numericValues xs)"
    by (metis size_mset)
  have srt: "js_sort (\<lambda>a b. js_sub a b) (numericValues ys)
      = js_sort (\<lambda>a b. js_sub a b) (numericValues xs)"
    using m assms(2,3) by (intro js_sort_permutation [symmetric]) (simp_all add: NaN_notin_numericValues)
  have e: "numericValues ys = [] \<longleftrightarrow> numericValues xs = []"
    using len by (metis length_0_conv)
  show ?thesis
  proof (cases "numericValues xs = []")
    case True
    with e have "calculateStatistics ys = None" "calculateStatistics xs = None"
      by (simp_all add: calculateStatistics_None_iff)
    with True e show ?thesis by simp
  next
    case False
    with e have ney: "numericValues ys \<noteq> []" by simp
    have fields:
      "map_option q1 (calculateStatistics ys) = map_option q1 (calculateStatistics xs)"
      "map_option q3 (calculateStatistics ys) = map_option q3 (calculateStatistics xs)"
      "map_option iqr (calculateStatistics ys) = map_option iqr (calculateStatistics xs)"
      "map_option median (calculateStatistics ys) = map_option median (calculateStatistics xs)"
      "map_option min_stat (calculateStatistics ys) = map_option min_stat (calculateStatistics xs)"
      "map_option max_stat (calculateStatistics ys) = map_option max_stat (calculateStatistics xs)"
      "map_option lowerBound (calculateStatistics ys)
         = map_option lowerBound (calculateStatistics xs)"
      "map_option upperBound (calculateStatistics ys)
         = map_option upperBound (calculateStatistics xs)"
      "map_option lowerExtreme (calculateStatistics ys)
         = map_option lowerExtreme (calculateStatistics xs)"
      "map_option upperExtreme (calculateStatistics ys)
         = map_option upperExtreme (calculateStatistics xs)"
      "map_option count_stat (calculateStatistics ys)
         = map_option count_stat (calculateStatistics xs)"
      by (simp_all add: calculateStatistics_Some [OF False] calculateStatistics_Some [OF ney]
          srt len)
    have "\<forall>zs. numericValues xs = map (\<lambda>z. Fin (of_int z)) zs
              \<and> (\<Sum>z \<leftarrow> zs. \<bar>z\<bar>) < 2 ^ 53 \<longrightarrow>
            calculateStatistics ys = calculateStatistics xs"
      using ints [OF fields] by blast
    with fields show ?thesis
      by (simp only: mean_calculateStatistics simp_thms)
  qed
qed

text \<open>
  Claim C7 as stated fails for the mean: binary64 addition is not associative, so the
  sum depends on the order of the input. \<^verbatim>\<open>[2^53, 1, 1, -2^53]\<close> has mean 0, its
  permutation \<^verbatim>\<open>[1, 1, 2^53, -2^53]\<close> has mean 0.5.
\<close>

theorem calculateStatistics_permutation_counterexample:
  "mset [JNum (Fin 9007199254740992), JNum (Fin 1), JNum (Fin 1), JNum (Fin (- 9007199254740992))]
     = mset [JNum (Fin 1), JNum (Fin 1), JNum (Fin 9007199254740992), JNum (Fin (- 9007199254740992))]
   \<and> map_option mean (calculateStatistics
         [JNum (Fin 9007199254740992), JNum (Fin 1), JNum (Fin 1), JNum (Fin (- 9007199254740992))])
       = Some (Fin 0)
   \<and> map_option mean (calculateStatistics
         [JNum (Fin 1), JNum (Fin 1), JNum (Fin 9007199254740992), JNum (Fin (- 9007199254740992))])
       = Some (Fin (1 / 2))"
  by (simp add: mean_calculateStatistics numericValues_def js_arith js_div_def signed_zero_def
      round64_2p53 round64_2p53_1 round64_2p53_2 round64_half)

theorem calculateStatistics_permutation_witness:
  "mset [JNum (Fin 3), JStr ''x'', JNum (Fin 1), JNum (Fin 2)]
     = mset [JNum (Fin 1), JNum (Fin 2), JStr ''x'', JNum (Fin 3)]
   \<and> doubles (numericValues [JNum (Fin 3), JStr ''x'', JNum (Fin 1), JNum (Fin 2)])
   \<and> NegZero \<notin> set (numericValues [JNum (Fin 3), JStr ''x'', JNum (Fin 1), JNum (Fin 2)])
   \<and> map_option median (calculateStatistics [JNum (Fin 1), JNum (Fin 2), JStr ''x'', JNum (Fin 3)])
       = map_option median (calculateStatistics [JNum (Fin 3), JStr ''x'', JNum (Fin 1), JNum (Fin 2)])
   \<and> map_option median (calculateStatistics [JNum (Fin 3), JStr ''x'', JNum (Fin 1), JNum (Fin 2)])
       = Some (Fin 2)"
proof -
  have p: "mset [JNum (Fin 3), JStr ''x'', JNum (Fin 1), JNum (Fin 2)]
     = mset [JNum (Fin 1), JNum (Fin 2), JStr ''x'', JNum (Fin 3)]"
    by simp
  have d: "doubles (numericValues [JNum (Fin 3), JStr ''x'', JNum (Fin 1), JNum (Fin 2)])"
    by (simp add: doubles_def numericValues_def js_arith)
  have z: "NegZero \<notin> set (numericValues [JNum (Fin 3), JStr ''x'', JNum (Fin 1), JNum (Fin 2)])"
    by (simp add: numericValues_def)
  have v: "map_option median
        (calculateStatistics [JNum (Fin 3), JStr ''x'', JNum (Fin 1), JNum (Fin 2)])
      = Some (Fin 2)"
    by (simp add: calculateStatistics_def numericValues_def Let_def js_sort_def
        floor_mul_quarter floor_mul_half floor_mul_three_quarters js_arith)
  from calculateStatistics_permutation [OF p d z]
  have "map_option median (calculateStatistics [JNum (Fin 1), JNum (Fin 2), JStr ''x'', JNum (Fin 3)])
      = map_option median (calculateStatistics [JNum (Fin 3), JStr ''x'', JNum (Fin 1), JNum (Fin 2)])"
    by (elim conjE)
  with p d z v show ?thesis
    by (intro conjI)
qed

section \<open>Claims about detectAnomaly\<close>

text \<open>
  Claim C5, as the code has it. \<open>detectAnomaly\<close> returns exactly one of five outcomes,
  checking in this order: below the lower extreme fence, above the upper extreme fence,
  below the lower mild fence, above the upper mild fence, otherwise no anomaly. When the
  statistics are \<^verbatim>\<open>null\<close>, or the value is not a number or is \<open>NaN\<close>, the outcome is no
  anomaly. An outcome is no anomaly exactly when its severity and its type are both
  \<^verbatim>\<open>null\<close>. The test on the value is \<^verbatim>\<open>typeof value !== 'number' || isNaN(value)\<close>, so an
  infinite value is classified like any other number.
\<close>

theorem detectAnomaly_classification:
  "detectAnomaly v st =
     (if st = None \<or> \<not> numeric_non_nan v then
        \<lparr>isAnomaly = False, type = None, severity = None\<rparr>
      else if js_lt (the_num v) (lowerExtreme (the st)) then
        \<lparr>isAnomaly = True, type = Some ''low'', severity = Some ''extreme''\<rparr>
      else if js_gt (the_num v) (upperExtreme (the st)) then
        \<lparr>isAnomaly = True, type = Some ''high'', severity = Some ''extreme''\<rparr>
      else if js_lt (the_num v) (lowerBound (the st)) then
        \<lparr>isAnomaly = True, type = Some ''low'', severity = Some ''mild''\<rparr>
      else if js_gt (the_num v) (upperBound (the st)) then
        \<lparr>isAnomaly = True, type = Some ''high'', severity = Some ''mild''\<rparr>
      else \<lparr>isAnomaly = False, type = None, severity = None\<rparr>)
   \<and> detectAnomaly v st \<in>
       {\<lparr>isAnomaly = True, type = Some ''low'', severity = Some ''extreme''\<rparr>,
        \<lparr>isAnomaly = True, type = Some ''high'', severity = Some ''extreme''\<rparr>,
        \<lparr>isAnomaly = True, type = Some ''low'', severity = Some ''mild''\<rparr>,
        \<lparr>isAnomaly = True, type = Some ''high'', severity = Some ''mild''\<rparr>,
        \<lparr>isAnomaly = False, type = None, severity = None\<rparr>}
   \<and> (isAnomaly (detectAnomaly v st) = False \<longleftrightarrow>
        severity (detectAnomaly v st) = None \<and> type (detectAnomaly v st) = None)
   \<and> (numeric_non_nan v \<longleftrightarrow> (\<exists>x. v = JNum x \<and> x \<noteq> NaN))"
  by (cases st; cases v) (simp_all add: detectAnomaly_def)

text \<open>
  Claim C5 as stated fails for a value that is a number but not finite: positive infinity
  lies above every finite upper extreme fence and is an extreme high anomaly.
\<close>

theorem detectAnomaly_infinity_counterexample:
  "\<not> spec_finite_number (JNum PInf) \<and>
   detectAnomaly (JNum PInf)
     (Some \<lparr>q1 = Fin 11, q3 = Fin 13, iqr = Fin 2, median = Fin 12, mean = Fin 30,
            min_stat = Fin 10, max_stat = Fin 104, lowerBound = Fin 8, upperBound = Fin 16,
            lowerExtreme = Fin 5, upperExtreme = Fin 19, count_stat = 5\<rparr>)
   = \<lparr>isAnomaly = True, type = Some ''high'', severity = Some ''extreme''\<rparr>"
  by (simp add: detectAnomaly_def js_gt_def)

theorem detectAnomaly_classification_witness:
  "detectAnomaly (JNum (Fin 17))
     (Some \<lparr>q1 = Fin 11, q3 = Fin 13, iqr = Fin 2, median = Fin 12, mean = Fin 30,
            min_stat = Fin 10, max_stat = Fin 104, lowerBound = Fin 8, upperBound = Fin 16,
            lowerExtreme = Fin 5, upperExtreme = Fin 19, count_stat = 5\<rparr>)
   = \<lparr>isAnomaly = True, type = Some ''high'', severity = Some ''mild''\<rparr>"
  using detectAnomaly_classification [of "JNum (Fin 17)"
     "Some \<lparr>q1 = Fin 11, q3 = Fin 13, iqr = Fin 2, median = Fin 12, mean = Fin 30,
            min_stat = Fin 10, max_stat = Fin 104, lowerBound = Fin 8, upperBound = Fin 16,
            lowerExtreme = Fin 5, upperExtreme = Fin 19, count_stat = 5\<rparr>"]
  by (simp add: js_gt_def)

section \<open>Claims about getAnomalyTooltip\<close>

text \<open>
  Claim C8. \<open>getAnomalyTooltip\<close> returns the empty string when the anomaly record has
  \<^verbatim>\<open>isAnomaly\<close> false. Otherwise the message contains the percent-from-mean figure
  followed by the direction word, which is \<^verbatim>\<open>above\<close> when the type is \<^verbatim>\<open>high\<close> and
  \<^verbatim>\<open>below\<close> otherwise; the message for extreme severity also contains the deviation
  from the bound, and it differs from every message for another severity. The
  percent-from-mean figure is \<open>\<bar>value - mean\<bar> / mean * 100\<close> with one decimal, and the
  deviation is \<open>\<bar>value - bound\<bar>\<close> with two decimals, where the bound is \<^verbatim>\<open>upperBound\<close> when
  the type is \<^verbatim>\<open>high\<close> and \<^verbatim>\<open>lowerBound\<close> otherwise. With the mean 32 the values 96, 0 and
  13 give 200.0, 100.0 and 59.4 (from 59.375); with the mean -32 the value 0 gives
  -100.0, the division being by the signed mean. With the bounds 14.5 and 18.5 the value
  96 deviates by 77.50 from the upper and 81.50 from the lower one, the value 0 by 18.50
  and 14.50, and the value 96.1875 by 77.69 and 81.69 (from 77.6875 and 81.6875).
\<close>

theorem getAnomalyTooltip_contents:
  "(\<not> isAnomaly a \<longrightarrow> getAnomalyTooltip large a s v = [])
   \<and> (isAnomaly a \<longrightarrow>
        (\<exists>pre post. getAnomalyTooltip large a s v
            = pre @ percentDiff large s v @ ''% '' @ direction a @ post))
   \<and> direction a = (if type a = Some ''high'' then ''above'' else ''below'')
   \<and> (isAnomaly a \<and> severity a = Some ''extreme'' \<longrightarrow>
        (\<exists>pre post. getAnomalyTooltip large a s v = pre @ diff large a s v @ post))
   \<and> (isAnomaly a \<and> severity a = Some ''extreme'' \<and> isAnomaly b \<and> severity b \<noteq> Some ''extreme''
        \<longrightarrow> getAnomalyTooltip large a s v \<noteq> getAnomalyTooltip large b s' v')
   \<and> percentDiff large s v
       = toFixed large (js_mul (js_div (js_abs (js_sub v (mean s))) (mean s)) (Fin 100)) 1
   \<and> diff large a s v
       = toFixed large
           (js_abs (js_sub v (if type a = Some ''high'' then upperBound s else lowerBound s))) 2
   \<and> (mean s = Fin 32 \<longrightarrow>
        percentDiff large s (Fin 96) = ''200.0''
        \<and> percentDiff large s (Fin 0) = ''100.0''
        \<and> percentDiff large s (Fin 13) = ''59.4'')
   \<and> (mean s = Fin (- 32) \<longrightarrow> percentDiff large s (Fin 0) = ''-100.0'')
   \<and> (upperBound s = Fin (37 / 2) \<and> lowerBound s = Fin (29 / 2) \<longrightarrow>
        diff large a s (Fin 96) = (if type a = Some ''high'' then ''77.50'' else ''81.50'')
        \<and> diff large a s (Fin 0) = (if type a = Some ''high'' then ''18.50'' else ''14.50'')
        \<and> diff large a s (Fin (1539 / 16))
            = (if type a = Some ''high'' then ''77.69'' else ''81.69''))"
proof (intro conjI impI)
  assume "\<not> isAnomaly a"
  then show "getAnomalyTooltip large a s v = []"
    by (simp add: getAnomalyTooltip_def)
next
  assume a: "isAnomaly a"
  show "\<exists>pre post. getAnomalyTooltip large a s v
            = pre @ percentDiff large s v @ ''% '' @ direction a @ post"
  proof (cases "severity a = Some ''extreme''")
    case True
    with a have "getAnomalyTooltip large a s v
        = (extreme_mark @ '' Extreme outlier! '') @ percentDiff large s v @ ''% '' @ direction a
          @ ('' average (deviation: '' @ diff large a s v @ '')'')"
      by (simp add: getAnomalyTooltip_def)
    then show ?thesis by blast
  next
    case False
    with a have "getAnomalyTooltip large a s v
        = (mild_mark @ '' Outlier detected: '') @ percentDiff large s v @ ''% '' @ direction a
          @ '' average''"
      by (simp add: getAnomalyTooltip_def)
    then show ?thesis by blast
  qed
next
  show "direction a = (if type a = Some ''high'' then ''above'' else ''below'')"
    by (simp add: direction_def)
next
  assume "isAnomaly a \<and> severity a = Some ''extreme''"
  then have "getAnomalyTooltip large a s v
        = (extreme_mark @ '' Extreme outlier! '' @ percentDiff large s v @ ''% '' @ direction a
          @ '' average (deviation: '') @ diff large a s v @ '')''"
    by (simp add: getAnomalyTooltip_def)
  then show "\<exists>pre post. getAnomalyTooltip large a s v = pre @ diff large a s v @ post"
    by blast
next
  assume h: "isAnomaly a \<and> severity a = Some ''extreme'' \<and> isAnomaly b
      \<and> severity b \<noteq> Some ''extreme''"
  then have "last (getAnomalyTooltip large a s v) = CHR '')''"
    by (simp add: getAnomalyTooltip_def)
  moreover from h have "last (getAnomalyTooltip large b s' v') = CHR ''e''"
    by (simp add: getAnomalyTooltip_def)
  ultimately show "getAnomalyTooltip large a s v \<noteq> getAnomalyTooltip large b s' v'"
    by auto
next
  show "percentDiff large s v
       = toFixed large (js_mul (js_div (js_abs (js_sub v (mean s))) (mean s)) (Fin 100)) 1"
    by (simp add: percentDiff_def percent_def)
next
  show "diff large a s v
       = toFixed large
           (js_abs (js_sub v (if type a = Some ''high'' then upperBound s else lowerBound s))) 2"
    by (simp add: diff_def bound_def)
next
  assume m: "mean s = Fin 32"
  show "percentDiff large s (Fin 96) = ''200.0''"
    by (simp add: percentDiff_def percent_def m js_arith fixed_digits_200)
  show "percentDiff large s (Fin 0) = ''100.0''"
    by (simp add: percentDiff_def percent_def m js_arith fixed_digits_100)
  show "percentDiff large s (Fin 13) = ''59.4''"
    by (simp add: percentDiff_def percent_def m js_arith round64_19_32 round64_475_8
        fixed_digits_475_8)
next
  assume m: "mean s = Fin (- 32)"
  show "percentDiff large s (Fin 0) = ''-100.0''"
    by (simp add: percentDiff_def percent_def m js_arith fixed_digits_minus_100)
next
  assume b: "upperBound s = Fin (37 / 2) \<and> lowerBound s = Fin (29 / 2)"
  show "diff large a s (Fin 96) = (if type a = Some ''high'' then ''77.50'' else ''81.50'')"
    using b by (simp add: diff_def bound_def js_arith fixed_digits_155_half fixed_digits_163_half)
  show "diff large a s (Fin 0) = (if type a = Some ''high'' then ''18.50'' else ''14.50'')"
    using b by (simp add: diff_def bound_def js_arith fixed_digits_37_half fixed_digits_29_half)
  show "diff large a s (Fin (1539 / 16))
      = (if type a = Some ''high'' then ''77.69'' else ''81.69'')"
    using b by (simp add: diff_def bound_def js_arith round64_1243_16 round64_1307_16
        fixed_digits_1243_16 fixed_digits_1307_16)
qed

theorem getAnomalyTooltip_contents_witness:
  "getAnomalyTooltip (\<lambda>r. [])
     \<lparr>isAnomaly = True, type = Some ''high'', severity = Some ''extreme''\<rparr>
     \<lparr>q1 = Fin 16, q3 = Fin 17, iqr = Fin 1, median = Fin 16, mean = Fin 32,
      min_stat = Fin 15, max_stat = Fin 96, lowerBound = Fin (29 / 2),
      upperBound = Fin (37 / 2), lowerExtreme = Fin 13, upperExtreme = Fin 20,
      count_stat = 5\<rparr>
     (Fin 96)
   = extreme_mark @ '' Extreme outlier! 200.0% above average (deviation: 77.50)''
   \<and> getAnomalyTooltip (\<lambda>r. [])
     \<lparr>isAnomaly = True, type = Some ''high'', severity = Some ''mild''\<rparr>
     \<lparr>q1 = Fin 16, q3 = Fin 17, iqr = Fin 1, median = Fin 16, mean = Fin 32,
      min_stat = Fin 15, max_stat = Fin 96, lowerBound = Fin (29 / 2),
      upperBound = Fin (37 / 2), lowerExtreme = Fin 13, upperExtreme = Fin 20,
      count_stat = 5\<rparr>
     (Fin 96)
   = mild_mark @ '' Outlier detected: 200.0% above average''
   \<and> getAnomalyTooltip (\<lambda>r. [])
     \<lparr>isAnomaly = True, type = Some ''low'', severity = Some ''extreme''\<rparr>
     \<lparr>q1 = Fin 16, q3 = Fin 17, iqr = Fin 1, median = Fin 16, mean = Fin 32,
      min_stat = Fin 15, max_stat = Fin 96, lowerBound = Fin (29 / 2),
      upperBound = Fin (37 / 2), lowerExtreme = Fin 13, upperExtreme = Fin 20,
      count_stat = 5\<rparr>
     (Fin 0)
   = extreme_mark @ '' Extreme outlier! 100.0% below average (deviation: 14.50)''
   \<and> getAnomalyTooltip (\<lambda>r. [])
     \<lparr>isAnomaly = True, type = Some ''low'', severity = Some ''mild''\<rparr>
     \<lparr>q1 = Fin 16, q3 = Fin 17, iqr = Fin 1, median = Fin 16, mean = Fin 32,
      min_stat = Fin 15, max_stat = Fin 96, lowerBound = Fin (29 / 2),
      upperBound = Fin (37 / 2), lowerExtreme = Fin 13, upperExtreme = Fin 20,
      count_stat = 5\<rparr>
     (Fin 13)
   = mild_mark @ '' Outlier detected: 59.4% below average''"
  using getAnomalyTooltip_contents [of
     "\<lparr>isAnomaly = True, type = Some ''high'', severity = Some ''extreme''\<rparr>"
     "\<lambda>r. []"
     "\<lparr>q1 = Fin 16, q3 = Fin 17, iqr = Fin 1, median = Fin 16, mean = Fin 32,
      min_stat = Fin 15, max_stat = Fin 96, lowerBound = Fin (29 / 2),
      upperBound = Fin (37 / 2), lowerExtreme = Fin 13, upperExtreme = Fin 20,
      count_stat = 5\<rparr>"
     "Fin 96"
     "\<lparr>isAnomaly = True, type = Some ''high'', severity = Some ''mild''\<rparr>"]
   getAnomalyTooltip_contents [of
     "\<lparr>isAnomaly = True, type = Some ''low'', severity = Some ''extreme''\<rparr>"
     "\<lambda>r. []"
     "\<lparr>q1 = Fin 16, q3 = Fin 17, iqr = Fin 1, median = Fin 16, mean = Fin 32,
      min_stat = Fin 15, max_stat = Fin 96, lowerBound = Fin (29 / 2),
      upperBound = Fin (37 / 2), lowerExtreme = Fin 13, upperExtreme = Fin 20,
      count_stat = 5\<rparr>"
     "Fin 0"
     "\<lparr>isAnomaly = True, type = Some ''low'', severity = Some ''mild''\<rparr>"]
  by (simp add: getAnomalyTooltip_def percentDiff_def percent_def diff_def bound_def
      direction_def js_arith fixed_digits_200 fixed_digits_155_half fixed_digits_100
      fixed_digits_29_half round64_19_32 round64_475_8 fixed_digits_475_8)

text \<open>
  Claim C9, as the code has it. The percentage of the tooltip divides by \<^verbatim>\<open>stats.mean\<close>
  without a guard. When the mean is zero the percentage is not finite: it is \<open>Infinity\<close>
  or \<open>NaN\<close> for a mean of positive zero (\<open>Infinity\<close> for the value 5), and \<open>-Infinity\<close> or
  \<open>NaN\<close> for a mean of negative zero. \<^verbatim>\<open>toFixed\<close> prints it as such, and the message of an
  anomaly contains this text; nothing is raised and no case is treated specially.
\<close>

theorem tooltip_percent_zero_mean:
  "(mean s = Fin 0 \<longrightarrow>
      percent s v \<in> {PInf, NaN} \<and> percentDiff large s v \<in> {''Infinity'', ''NaN''})
   \<and> (mean s = NegZero \<longrightarrow>
      percent s v \<in> {NInf, NaN} \<and> percentDiff large s v \<in> {''-Infinity'', ''NaN''})
   \<and> (mean s = Fin 0 \<longrightarrow>
      percent s (Fin 5) = PInf \<and> percentDiff large s (Fin 5) = ''Infinity'')
   \<and> (is_zero (mean s) \<and> isAnomaly a \<longrightarrow>
      (\<exists>pre post. getAnomalyTooltip large a s v = pre @ percentDiff large s v @ post))"
proof (intro conjI impI)
  assume m: "mean s = Fin 0"
  then show "percent s v \<in> {PInf, NaN}" by (rule percent_zero_mean)
  then show "percentDiff large s v \<in> {''Infinity'', ''NaN''}"
    by (auto simp: percentDiff_def)
  show "percent s (Fin 5) = PInf"
    by (simp add: percent_def m js_arith js_div_def js_mul_def signed_inf_def)
  then show "percentDiff large s (Fin 5) = ''Infinity''"
    by (simp add: percentDiff_def)
next
  assume m: "mean s = NegZero"
  then show "percent s v \<in> {NInf, NaN}" by (rule percent_zero_mean)
  then show "percentDiff large s v \<in> {''-Infinity'', ''NaN''}"
    by (auto simp: percentDiff_def)
next
  assume "is_zero (mean s) \<and> isAnomaly a"
  then have "getAnomalyTooltip large a s v =
      (if severity a = Some ''extreme'' then extreme_mark @ '' Extreme outlier! ''
       else mild_mark @ '' Outlier detected: '')
      @ percentDiff large s v
      @ (if severity a = Some ''extreme'' then
           ''% '' @ direction a @ '' average (deviation: '' @ diff large a s v @ '')''
         else ''% '' @ direction a @ '' average'')"
    by (simp add: getAnomalyTooltip_def)
  then show "\<exists>pre post. getAnomalyTooltip large a s v = pre @ percentDiff large s v @ post"
    by blast
qed

text \<open>
  Claim C9 as stated fails for a mean of negative zero, which also satisfies
  \<^verbatim>\<open>stats.mean == 0\<close>: the percentage is \<open>-Infinity\<close>, not \<open>Infinity\<close> or \<open>NaN\<close>. Such a mean
  is returned by \<open>calculateStatistics\<close> for \<^verbatim>\<open>[5, -5, -Number.MIN_VALUE]\<close>; with these
  statistics the value 5 has the percentage \<open>-Infinity\<close>, and the value 50, an extreme high
  anomaly, has a message that says so.
\<close>

theorem tooltip_percent_negative_zero_counterexample:
  "calculateStatistics [JNum (Fin 5), JNum (Fin (- 5)), JNum (Fin (- min_value))]
     = Some underflow_stats
   \<and> is_double (Fin (- min_value))
   \<and> mean underflow_stats = NegZero
   \<and> is_zero (mean underflow_stats)
   \<and> percent underflow_stats (Fin 5) = NInf
   \<and> percentDiff (\<lambda>r. []) underflow_stats (Fin 5) = ''-Infinity''
   \<and> detectAnomaly (JNum (Fin 50)) (Some underflow_stats)
       = \<lparr>isAnomaly = True, type = Some ''high'', severity = Some ''extreme''\<rparr>
   \<and> getAnomalyTooltip (\<lambda>r. [])
        \<lparr>isAnomaly = True, type = Some ''high'', severity = Some ''extreme''\<rparr>
        underflow_stats (Fin 50)
       = extreme_mark @ '' Extreme outlier! -Infinity% above average (deviation: 30.00)''"
proof (intro conjI)
  show "calculateStatistics [JNum (Fin 5), JNum (Fin (- 5)), JNum (Fin (- min_value))]
     = Some underflow_stats"
    by (rule stats_underflow)
  show "is_double (Fin (- min_value))"
    by (simp add: round64_min_value)
  show "mean underflow_stats = NegZero" "is_zero (mean underflow_stats)"
    by (simp_all add: underflow_stats_def)
  show "percent underflow_stats (Fin 5) = NInf"
    by (simp add: percent_def underflow_stats_def js_sub_def js_add_def js_div_def js_mul_def
        signed_inf_def js_arith)
  then show "percentDiff (\<lambda>r. []) underflow_stats (Fin 5) = ''-Infinity''"
    by (simp add: percentDiff_def)
  show "detectAnomaly (JNum (Fin 50)) (Some underflow_stats)
       = \<lparr>isAnomaly = True, type = Some ''high'', severity = Some ''extreme''\<rparr>"
    by (simp add: detectAnomaly_def underflow_stats_def js_gt_def)
  show "getAnomalyTooltip (\<lambda>r. [])
        \<lparr>isAnomaly = True, type = Some ''high'', severity = Some ''extreme''\<rparr>
        underflow_stats (Fin 50)
       = extreme_mark @ '' Extreme outlier! -Infinity% above average (deviation: 30.00)''"
    by (simp add: getAnomalyTooltip_def percentDiff_def percent_def diff_def bound_def
        direction_def underflow_stats_def js_sub_def js_add_def js_div_def js_mul_def
        signed_inf_def js_arith fixed_digits_30)
qed

theorem tooltip_percent_zero_mean_witness:
  "getAnomalyTooltip (\<lambda>r. [])
     \<lparr>isAnomaly = True, type = Some ''high'', severity = Some ''extreme''\<rparr>
     \<lparr>q1 = Fin 0, q3 = Fin 0, iqr = Fin 0, median = Fin 0, mean = Fin 0,
      min_stat = Fin (- 1), max_stat = Fin 1, lowerBound = Fin 0, upperBound = Fin 0,
      lowerExtreme = Fin 0, upperExtreme = Fin 0, count_stat = 5\<rparr>
     (Fin 5)
   = extreme_mark @ '' Extreme outlier! Infinity% above average (deviation: 5.00)''"
  using tooltip_percent_zero_mean [of
     "\<lparr>q1 = Fin 0, q3 = Fin 0, iqr = Fin 0, median = Fin 0, mean = Fin 0,
      min_stat = Fin (- 1), max_stat = Fin 1, lowerBound = Fin 0, upperBound = Fin 0,
      lowerExtreme = Fin 0, upperExtreme = Fin 0, count_stat = 5\<rparr>"
     "Fin 5" "\<lambda>r. []"
     "\<lparr>isAnomaly = True, type = Some ''high'', severity = Some ''extreme''\<rparr>"]
  by (simp add: getAnomalyTooltip_def percentDiff_def diff_def bound_def direction_def
      js_arith fixed_digits_5)

section \<open>Claims about analyzeDataset\<close>

text \<open>
  Claim C1, as the code has it. \<open>analyzeDataset\<close> has no guard of its own. For an array
  of rows and an array of columns it raises nothing; when the data or the columns are
  an empty array it returns the empty analysis (no statistics, no counts, a total of
  zero), which is an object and not \<^verbatim>\<open>null\<close>. When the columns are absent or not an array
  it raises a \<^verbatim>\<open>TypeError\<close>, and so it does when the data are not an array and there is
  at least one column. The \<^verbatim>\<open>null\<close> that stands for "no anomaly highlighting" comes from
  the caller: \<^verbatim>\<open>DataTable\<close> returns it for absent or empty data and for absent columns,
  without calling the analyzer, and passes every other input on.
\<close>

theorem analyzeDataset_malformed_input:
  "(\<exists>r. analyzeDataset (Array rows) (Array cols) = Inr r)
   \<and> analyzeDataset (Array []) (Array cols)
       = Inr \<lparr>columnStats = [], anomalyCounts = [], numericColumns = [], totalAnomalies = 0\<rparr>
   \<and> analyzeDataset data (Array [])
       = Inr \<lparr>columnStats = [], anomalyCounts = [], numericColumns = [], totalAnomalies = 0\<rparr>
   \<and> ((\<forall>xs. columns \<noteq> Array xs) \<longrightarrow> analyzeDataset data columns = Inl TypeError)
   \<and> ((\<forall>xs. data \<noteq> Array xs) \<and> cols \<noteq> [] \<longrightarrow>
        analyzeDataset data (Array cols) = Inl TypeError)
   \<and> (data \<in> {Prim JUndefined, Prim JNull, Array []}
        \<or> columns \<in> {Prim JUndefined, Prim JNull} \<longrightarrow>
        anomalyAnalysis data columns = Inr None)
   \<and> (rows \<noteq> [] \<longrightarrow>
        anomalyAnalysis (Array rows) (Array cols)
          = map_sum id Some (analyzeDataset (Array rows) (Array cols)))"
proof (intro conjI impI)
  show "\<exists>r. analyzeDataset (Array rows) (Array cols) = Inr r"
    by (rule analyzeDataset_total)
  show "analyzeDataset (Array []) (Array cols)
       = Inr \<lparr>columnStats = [], anomalyCounts = [], numericColumns = [], totalAnomalies = 0\<rparr>"
    by (simp add: analyzeDataset_no_rows empty_analysis_def)
  show "analyzeDataset data (Array [])
       = Inr \<lparr>columnStats = [], anomalyCounts = [], numericColumns = [], totalAnomalies = 0\<rparr>"
    by (simp add: analyzeDataset_no_columns empty_analysis_def)
next
  assume "\<forall>xs. columns \<noteq> Array xs"
  then show "analyzeDataset data columns = Inl TypeError"
    by (rule analyzeDataset_columns_not_array)
next
  assume "(\<forall>xs. data \<noteq> Array xs) \<and> cols \<noteq> []"
  then show "analyzeDataset data (Array cols) = Inl TypeError"
    by (simp add: analyzeDataset_data_not_array)
next
  assume "data \<in> {Prim JUndefined, Prim JNull, Array []}
        \<or> columns \<in> {Prim JUndefined, Prim JNull}"
  then show "anomalyAnalysis data columns = Inr None"
    by (auto simp: anomalyAnalysis_def)
next
  assume "rows \<noteq> []"
  then show "anomalyAnalysis (Array rows) (Array cols)
          = map_sum id Some (analyzeDataset (Array rows) (Array cols))"
    by (simp add: anomalyAnalysis_def analyzeDataset_arrays)
qed

text \<open>
  Claim C1 as stated fails for absent columns, and for data that are not an array: the
  call \<^verbatim>\<open>columns.filter\<close>, or \<^verbatim>\<open>data.map\<close> inside it, raises a \<^verbatim>\<open>TypeError\<close>.
\<close>

theorem analyzeDataset_absent_columns_counterexample:
  "analyzeDataset (Array []) (Prim JUndefined) = Inl TypeError
   \<and> analyzeDataset (Prim JNull) (Array [''temp'']) = Inl TypeError"
  by (simp add: analyzeDataset_def)

theorem analyzeDataset_malformed_input_witness:
  "analyzeDataset (PlainObject) (Prim JUndefined) = Inl TypeError
   \<and> analyzeDataset (PlainObject) (Array [''name'', ''temp'']) = Inl TypeError
   \<and> anomalyAnalysis (Prim JNull) (Prim JUndefined) = Inr None
   \<and> anomalyAnalysis (Array example_rows) (Array [''name'', ''temp''])
       = Inr (Some example_analysis)"
proof -
  have "example_rows \<noteq> []" by (simp add: example_rows_def)
  then show ?thesis
    using analyzeDataset_malformed_input
      [of example_rows "[''name'', ''temp'']" PlainObject "Prim JUndefined"]
      analyzeDataset_malformed_input
      [of example_rows "[''name'', ''temp'']" "Prim JNull" "Prim JUndefined"]
    by (simp add: analyzeDataset_example)
qed

text \<open>
  Claim C3, as the code has it. \<open>numericColumns\<close> is the subsequence of the columns
  that have, in at least one row, a number other than \<open>NaN\<close>. A column that holds only
  strings is not among them, has no entry in \<^verbatim>\<open>columnStats\<close> or \<^verbatim>\<open>anomalyCounts\<close>, and
  adds nothing to the result: the analysis without this column is the same, total
  included.
\<close>

theorem analyzeDataset_numericColumns:
  assumes "analyzeDataset (Array rows) (Array cols) = Inr r"
  shows "numericColumns r
           = filter (\<lambda>c. \<exists>row \<in> set rows. \<exists>x. row c = JNum x \<and> x \<noteq> NaN) cols
   \<and> subseq (numericColumns r) cols
   \<and> (\<forall>c. c \<in> set (numericColumns r) \<longleftrightarrow>
          c \<in> set cols \<and> (\<exists>row \<in> set rows. \<exists>x. row c = JNum x \<and> x \<noteq> NaN))
   \<and> (\<forall>c. (\<forall>row \<in> set rows. \<exists>t. row c = JStr t) \<longrightarrow>
          c \<notin> set (numericColumns r)
          \<and> map_of (columnStats r) c = None
          \<and> map_of (anomalyCounts r) c = None
          \<and> analyzeDataset (Array rows) (Array (removeAll c cols)) = Inr r)"
proof -
  have nc: "numericColumns r = filter (numeric_column rows) cols"
    using assms by (auto simp: analyzeDataset_arrays)
  have 1: "numericColumns r
           = filter (\<lambda>c. \<exists>row \<in> set rows. \<exists>x. row c = JNum x \<and> x \<noteq> NaN) cols"
    by (simp add: nc numeric_column_iff [abs_def])
  have 2: "subseq (numericColumns r) cols" by (simp add: nc)
  have 3: "c \<in> set (numericColumns r) \<longleftrightarrow>
          c \<in> set cols \<and> (\<exists>row \<in> set rows. \<exists>x. row c = JNum x \<and> x \<noteq> NaN)" for c
    by (simp add: nc numeric_column_iff)
  have 4: "c \<notin> set (numericColumns r)
          \<and> map_of (columnStats r) c = None
          \<and> map_of (anomalyCounts r) c = None
          \<and> analyzeDataset (Array rows) (Array (removeAll c cols)) = Inr r"
    if str: "\<forall>row \<in> set rows. \<exists>t. row c = JStr t" for c
  proof -
    from str have n: "\<not> numeric_column rows c"
      by (auto simp: numeric_column_iff)
    then have notin: "c \<notin> set (filter (numeric_column rows) cols)" by simp
    have "analyzeDataset (Array rows) (Array (removeAll c cols))
        = analyzeDataset (Array rows) (Array cols)"
      using n by (simp add: analyzeDataset_arrays filter_removeAll_irrelevant)
    moreover have "map_of (columnStats r) c = None" "map_of (anomalyCounts r) c = None"
      using n by (simp_all add: analyzeDataset_fields [OF assms] map_of_fold_update)
    ultimately show ?thesis using assms notin by (simp add: nc)
  qed
  from 1 2 3 4 show ?thesis by blast
qed

text \<open>
  Claim C3 as stated asks for a finite number. A column whose only value is
  \<^verbatim>\<open>Infinity\<close> is numeric for the code.
\<close>

theorem analyzeDataset_infinite_column_counterexample:
  "\<not> spec_finite_number (JNum PInf)
   \<and> analyzeDataset (Array [(\<lambda>_. JUndefined)(''temp'' := JNum PInf)]) (Array [''temp''])
     = Inr \<lparr>columnStats =
              [(''temp'',
                Some \<lparr>q1 = PInf, q3 = PInf, iqr = NaN, median = PInf, mean = PInf,
                      min_stat = PInf, max_stat = PInf, lowerBound = NaN, upperBound = NaN,
                      lowerExtreme = NaN, upperExtreme = NaN, count_stat = 1\<rparr>)],
            anomalyCounts = [(''temp'', 0)],
            numericColumns = [''temp''],
            totalAnomalies = 0\<rparr>"
  by (simp add: analyzeDataset_arrays js_assign_def numeric_column_def column_stats_def
      column_count_def calculateStatistics_def numericValues_def js_sort_def Let_def
      floor_mul_quarter floor_mul_half floor_mul_three_quarters
      js_sub_def js_add_def js_mul_def js_div_def signed_inf_def detectAnomaly_def js_gt_def)

theorem analyzeDataset_numericColumns_witness:
  "numericColumns example_analysis = [''temp'']
   \<and> map_of (columnStats example_analysis) ''name'' = None
   \<and> map_of (anomalyCounts example_analysis) ''name'' = None
   \<and> analyzeDataset (Array example_rows) (Array [''temp'']) = Inr example_analysis"
proof -
  have "\<forall>row \<in> set example_rows. \<exists>t. row ''name'' = JStr t"
    by (simp add: example_rows_def)
  with analyzeDataset_numericColumns [OF analyzeDataset_example]
  have "map_of (columnStats example_analysis) ''name'' = None
      \<and> map_of (anomalyCounts example_analysis) ''name'' = None
      \<and> analyzeDataset (Array example_rows) (Array (removeAll ''name'' [''name'', ''temp'']))
          = Inr example_analysis"
    by blast
  then show ?thesis
    by (simp add: example_analysis_def)
qed

text \<open>
  What holds of the sum for every result: \<^verbatim>\<open>totalAnomalies\<close> is the sum of the values of
  \<^verbatim>\<open>anomalyCounts\<close>, one for each of its keys, and the keys are the numeric columns other
  than \<^verbatim>\<open>__proto__\<close>. When no numeric column has that name, it is the sum of
  \<^verbatim>\<open>anomalyCounts[c]\<close> over the numeric columns \<open>c\<close>.
\<close>

lemma totalAnomalies_sum_values:
  assumes "analyzeDataset data columns = Inr r"
  shows "totalAnomalies r = sum_list (map snd (anomalyCounts r))"
    and "fst ` set (anomalyCounts r) = set (numericColumns r) - {''__proto__''}"
    and "distinct (map fst (anomalyCounts r))"
    and "totalAnomalies r
      = (\<Sum>c \<in> fst ` set (anomalyCounts r). the (map_of (anomalyCounts r) c))"
proof -
  have *: "totalAnomalies r = sum_list (map snd (anomalyCounts r))
      \<and> fst ` set (anomalyCounts r) = set (numericColumns r) - {''__proto__''}
      \<and> distinct (map fst (anomalyCounts r))"
    using analyzeDataset_Inr_cases [OF assms]
  proof
    assume "\<exists>rows cols. data = Array rows \<and> columns = Array cols"
    then obtain rows cols where "data = Array rows" "columns = Array cols" by blast
    with assms have "analyzeDataset (Array rows) (Array cols) = Inr r" by simp
    then show ?thesis
      by (auto simp: analyzeDataset_fields keys_fold_update distinct_fold_update)
  next
    assume "columns = Array [] \<and> r = empty_analysis"
    then show ?thesis by (simp add: empty_analysis_def)
  qed
  then show "totalAnomalies r = sum_list (map snd (anomalyCounts r))"
    and "fst ` set (anomalyCounts r) = set (numericColumns r) - {''__proto__''}"
    and "distinct (map fst (anomalyCounts r))"
    by simp_all
  from * show "totalAnomalies r
      = (\<Sum>c \<in> fst ` set (anomalyCounts r). the (map_of (anomalyCounts r) c))"
    by (simp add: sum_list_alist)
qed

lemma totalAnomalies_sum_ordinary_names:
  assumes "analyzeDataset data columns = Inr r" and "''__proto__'' \<notin> set (numericColumns r)"
  shows "totalAnomalies r = (\<Sum>c \<in> set (numericColumns r). the (map_of (anomalyCounts r) c))"
    and "distinct (numericColumns r) \<Longrightarrow>
      totalAnomalies r = (\<Sum>c \<leftarrow> numericColumns r. the (map_of (anomalyCounts r) c))"
proof -
  have k: "fst ` set (anomalyCounts r) = set (numericColumns r)"
    using totalAnomalies_sum_values(2) [OF assms(1)] assms(2) by simp
  then show s: "totalAnomalies r
      = (\<Sum>c \<in> set (numericColumns r). the (map_of (anomalyCounts r) c))"
    using totalAnomalies_sum_values(4) [OF assms(1)] by simp
  show "totalAnomalies r = (\<Sum>c \<leftarrow> numericColumns r. the (map_of (anomalyCounts r) c))"
    if "distinct (numericColumns r)"
    using that s by (simp add: sum_list_distinct_conv_sum_set)
qed

lemma column_count_proto_rows:
  "column_count proto_rows ''__proto__'' = 1" "column_count proto_rows ''temp'' = 1"
  by (simp_all add: column_count_def column_stats_def proto_rows_def stats_example
      detectAnomaly_def js_gt_def)

text \<open>
  Claim C6 says that \<^verbatim>\<open>totalAnomalies\<close> is the sum of \<^verbatim>\<open>anomalyCounts[c]\<close> over the numeric
  columns. The code loses the count of a numeric column named \<^verbatim>\<open>__proto__\<close>: the column
  is in \<^verbatim>\<open>numericColumns\<close> and one of its cells is an anomaly, but the assignment
  \<^verbatim>\<open>anomalyCounts[col] = count\<close> stores nothing, so the count is in no entry and the
  total is 0. The same numbers under the name \<^verbatim>\<open>temp\<close> give the count and the total 1.
\<close>

theorem totalAnomalies_proto_column:
  "analyzeDataset (Array proto_rows) (Array [''__proto__''])
     = Inr \<lparr>columnStats = [], anomalyCounts = [], numericColumns = [''__proto__''],
            totalAnomalies = 0\<rparr>
   \<and> column_count proto_rows ''__proto__'' = 1
   \<and> map (\<lambda>row. isAnomaly (detectAnomaly (row ''__proto__'')
          (calculateStatistics (map (\<lambda>row. row ''__proto__'') proto_rows)))) proto_rows
       = [False, False, True, False, False]
   \<and> analyzeDataset (Array proto_rows) (Array [''temp'']) = Inr example_analysis"
proof (intro conjI)
  show "analyzeDataset (Array proto_rows) (Array [''__proto__''])
     = Inr \<lparr>columnStats = [], anomalyCounts = [], numericColumns = [''__proto__''],
            totalAnomalies = 0\<rparr>"
    by (simp add: analyzeDataset_arrays js_assign_def)
      (simp add: numeric_column_def proto_rows_def)
  show "column_count proto_rows ''__proto__'' = 1"
    by (rule column_count_proto_rows)
  show "map (\<lambda>row. isAnomaly (detectAnomaly (row ''__proto__'')
          (calculateStatistics (map (\<lambda>row. row ''__proto__'') proto_rows)))) proto_rows
       = [False, False, True, False, False]"
    by (simp add: proto_rows_def stats_example detectAnomaly_def js_gt_def)
  show "analyzeDataset (Array proto_rows) (Array [''temp'']) = Inr example_analysis"
    by (simp add: analyzeDataset_arrays js_assign_def column_count_proto_rows
        example_analysis_def)
      (simp add: numeric_column_def column_stats_def proto_rows_def stats_example)
qed

text \<open>
  What holds of the keys for arrays of rows and columns: the keys of \<^verbatim>\<open>columnStats\<close> and
  of \<^verbatim>\<open>anomalyCounts\<close> are the numeric columns other than \<^verbatim>\<open>__proto__\<close>, and each of these
  has statistics that are not \<^verbatim>\<open>null\<close>, with a count of at least one; the statistics of
  every numeric column are not \<^verbatim>\<open>null\<close> when they are computed.
\<close>

lemma analyzeDataset_stats_keys_ordinary_names:
  assumes "analyzeDataset (Array rows) (Array cols) = Inr r"
  shows "fst ` set (columnStats r) = set (numericColumns r) - {''__proto__''}"
    and "fst ` set (anomalyCounts r) = set (numericColumns r) - {''__proto__''}"
    and "distinct (map fst (columnStats r))"
    and "distinct (map fst (anomalyCounts r))"
    and "c \<in> set (numericColumns r) \<Longrightarrow>
      \<exists>s. calculateStatistics (map (\<lambda>row. row c) rows) = Some s \<and> 1 \<le> count_stat s
        \<and> (c \<noteq> ''__proto__'' \<longrightarrow> map_of (columnStats r) c = Some (Some s))"
proof -
  note r = analyzeDataset_fields [OF assms]
  show "fst ` set (columnStats r) = set (numericColumns r) - {''__proto__''}"
    and "fst ` set (anomalyCounts r) = set (numericColumns r) - {''__proto__''}"
    and "distinct (map fst (columnStats r))"
    and "distinct (map fst (anomalyCounts r))"
    by (auto simp: r(1,2,3) keys_fold_update distinct_fold_update)
  show "\<exists>s. calculateStatistics (map (\<lambda>row. row c) rows) = Some s \<and> 1 \<le> count_stat s
        \<and> (c \<noteq> ''__proto__'' \<longrightarrow> map_of (columnStats r) c = Some (Some s))"
    if "c \<in> set (numericColumns r)"
  proof -
    from that have c: "c \<in> set cols" "numeric_column rows c" by (simp_all add: r)
    then obtain s where s: "column_stats rows c = Some s" "1 \<le> count_stat s"
      using column_stats_count by blast
    then have "calculateStatistics (map (\<lambda>row. row c) rows) = Some s"
      by (simp add: column_stats_def)
    with c s show ?thesis
      by (simp add: r(1) map_of_fold_update)
  qed
qed

text \<open>
  Claim C10 says that the keys of \<^verbatim>\<open>columnStats\<close> and of \<^verbatim>\<open>anomalyCounts\<close> are exactly the
  numeric columns. For the columns \<^verbatim>\<open>temp\<close> and \<^verbatim>\<open>__proto__\<close>, both numeric, the code
  computes statistics for both and stores an entry for \<^verbatim>\<open>temp\<close> only: the assignments
  to the name \<^verbatim>\<open>__proto__\<close> create no key.
\<close>

theorem analyzeDataset_proto_column_keys:
  "map_sum id (\<lambda>r. (map fst (columnStats r), map fst (anomalyCounts r), numericColumns r))
     (analyzeDataset (Array proto_rows) (Array [''temp'', ''__proto__'']))
     = Inr ([''temp''], [''temp''], [''temp'', ''__proto__''])
   \<and> column_stats proto_rows ''__proto__''
     = Some \<lparr>q1 = Fin 16, q3 = Fin 17, iqr = Fin 1, median = Fin 16, mean = Fin 32,
             min_stat = Fin 15, max_stat = Fin 96, lowerBound = Fin (29 / 2),
             upperBound = Fin (37 / 2), lowerExtreme = Fin 13, upperExtreme = Fin 20,
             count_stat = 5\<rparr>"
  by (simp add: analyzeDataset_arrays js_assign_def)
    (simp add: numeric_column_def column_stats_def proto_rows_def stats_example)

end
